theory Spec2Isabelle
  imports Complex_Main
begin

section \<open>Conventions of the embedding\<close>

text \<open>
  The development embeds three modules of the repository: \<^verbatim>\<open>src/filename_parser.py\<close>,
  \<^verbatim>\<open>src/data_model.py\<close> and \<^verbatim>\<open>src/esa_analysis.py\<close>.

  \<^item> A Python \<^verbatim>\<open>float\<close> is a \<open>real\<close>: rounding, infinities and NaN operands are
    abstracted. The one NaN the code itself produces from finite data, a numpy reduction
    over an empty array, is kept: such a reduction returns \<open>None\<close> in the type
    \<open>npfloat\<close>.
  \<^item> A Python \<^verbatim>\<open>str\<close> is a \<open>string\<close> whose characters are code points below 128.
  \<^item> \<^verbatim>\<open>Optional[T]\<close> is \<open>T option\<close>; a raised exception is \<open>Inl\<close> of a sum.
  \<^item> Logging is not modelled.
\<close>

datatype error = ValueError | NameError | TypeError | ZeroDivisionError

definition bind_e :: "error + 'a \<Rightarrow> ('a \<Rightarrow> error + 'b) \<Rightarrow> error + 'b" where
  "bind_e m f = (case m of Inl e \<Rightarrow> Inl e | Inr v \<Rightarrow> f v)"

type_synonym npfloat = "real option"

section \<open>Data model\<close>

text \<open>\<^verbatim>\<open>datetime\<close> values, as far as \<^verbatim>\<open>strptime('%y%m%d-%H%M%S')\<close> builds them.\<close>

record datetime =
  year :: nat
  month :: nat
  day :: nat
  hour :: nat
  minute :: nat
  second :: nat

text \<open>\<^verbatim>\<open>filename_parser.ExperimentalParameters\<close>, field by field.\<close>

record ExperimentalParameters =
  filename :: string
  file_type :: string
  base_name :: string
  beam_energy :: "string option"
  beam_energy_value :: "real option"
  beam_energy_unit :: "string option"
  esa_voltage :: "string option"
  esa_voltage_value :: "real option"
  mcp_voltage :: "string option"
  mcp_voltage_value :: "real option"
  inner_angle :: "string option"
  inner_angle_value :: "real option"
  inner_angle_range :: "(real \<times> real) option"
  is_angle_range :: bool
  horizontal_value :: "string option"
  horizontal_value_num :: "real option"
  focus_x :: "string option"
  focus_y :: "string option"
  offset_x :: "string option"
  offset_y :: "string option"
  wave_type :: "string option"
  timestamp :: "string option"
  datetime_obj :: "datetime option"
  is_dark :: bool
  is_ramp :: bool
  is_rotating :: bool
  test_type :: "string option"
  sequence_info :: "string option"

text \<open>
  \<^verbatim>\<open>fits_handler.FitsData\<close>: the detector reads only \<^verbatim>\<open>data\<close>, a two-dimensional
  array, here the list of its rows.
\<close>

type_synonym image = "real list list"

record FitsData =
  data :: "image option"
  has_errors :: bool

text \<open>
  \<^verbatim>\<open>data_model.DataFile\<close>. The property \<^verbatim>\<open>filename\<close> is \<open>DataFile_filename\<close> below.
  The histogram content and the file size are read by none of the embedded functions.
\<close>

record DataFile =
  filepath :: string
  parameters :: ExperimentalParameters
  file_type :: string
  fits_data :: "FitsData option"
  is_loaded :: bool
  has_errors :: bool
  error_messages :: "string list"

text \<open>\<^verbatim>\<open>esa_analysis.ImpactRegion\<close> and \<^verbatim>\<open>esa_analysis.ESAMeasurement\<close>.\<close>

record ImpactRegion =
  filename :: string
  beam_energy :: real
  esa_voltage :: real
  rotation_angle :: "real option"
  centroid_x :: real
  centroid_y :: real
  peak_intensity :: real
  total_intensity :: real
  region_area :: nat
  min_x :: nat
  max_x :: nat
  min_y :: nat
  max_y :: nat
  signal_to_noise :: npfloat
  data_density :: real
  rotation_angle_range :: "(real \<times> real) option"
  is_angle_range :: bool

record ESAMeasurement =
  impact_region :: ImpactRegion
  theoretical_deflection :: real
  measured_deflection :: real
  k_factor_estimate :: "real option"

text \<open>\<^verbatim>\<open>os.path.basename\<close> with the POSIX separator.\<close>

definition basename :: "string \<Rightarrow> string" where
  "basename p = rev (takeWhile (\<lambda>c. c \<noteq> CHR ''/'') (rev p))"

section \<open>Python strings\<close>

definition startswith :: "string \<Rightarrow> string \<Rightarrow> bool" where
  "startswith s p = (take (length p) s = p)"

definition endswith :: "string \<Rightarrow> string \<Rightarrow> bool" where
  "endswith s p = (length p \<le> length s \<and> drop (length s - length p) s = p)"

text \<open>\<^verbatim>\<open>s[:-n]\<close> for a positive \<open>n\<close>.\<close>

definition drop_last :: "nat \<Rightarrow> string \<Rightarrow> string" where
  "drop_last n s = take (length s - n) s"

text \<open>\<^verbatim>\<open>sub in s\<close>.\<close>

fun contains :: "string \<Rightarrow> string \<Rightarrow> bool" where
  "contains sub [] = (sub = [])"
| "contains sub (c # cs) = (startswith (c # cs) sub \<or> contains sub cs)"

text \<open>
  \<^verbatim>\<open>s.split(sep)\<close> for a separator that is not empty: \<open>acc\<close> holds, reversed, the
  characters of the piece being read.
\<close>

function split_from :: "string \<Rightarrow> string \<Rightarrow> string \<Rightarrow> string list" where
  "split_from sep acc [] = [rev acc]"
| "split_from sep acc (c # cs) =
     (if sep \<noteq> [] \<and> startswith (c # cs) sep
      then rev acc # split_from sep [] (drop (length sep - 1) cs)
      else split_from sep (c # acc) cs)"
  by pat_completeness auto
termination
  by (relation "measure (\<lambda>(sep, acc, s). length s)") auto

definition str_split :: "string \<Rightarrow> string \<Rightarrow> string list" where
  "str_split s sep = split_from sep [] s"

definition is_digit :: "char \<Rightarrow> bool" where
  "is_digit c = (48 \<le> (of_char c :: nat) \<and> (of_char c :: nat) \<le> 57)"

definition is_alpha :: "char \<Rightarrow> bool" where
  "is_alpha c = (65 \<le> (of_char c :: nat) \<and> (of_char c :: nat) \<le> 90 \<or>
                 97 \<le> (of_char c :: nat) \<and> (of_char c :: nat) \<le> 122)"

text \<open>The regular expression classes \<^verbatim>\<open>\w\<close> and \<^verbatim>\<open>\s\<close> on code points below 128.\<close>

definition is_word :: "char \<Rightarrow> bool" where
  "is_word c = (is_alpha c \<or> is_digit c \<or> c = CHR ''_'')"

definition is_space :: "char \<Rightarrow> bool" where
  "is_space c = (9 \<le> (of_char c :: nat) \<and> (of_char c :: nat) \<le> 13 \<or>
                 28 \<le> (of_char c :: nat) \<and> (of_char c :: nat) \<le> 32)"

definition digit_value :: "char \<Rightarrow> nat" where
  "digit_value c = of_char c - 48"

definition digits_value :: "string \<Rightarrow> nat" where
  "digits_value s = foldl (\<lambda>n c. 10 * n + digit_value c) 0 s"

text \<open>
  \<^verbatim>\<open>float(s)\<close> on decimal literals: an optional sign, digits, and an optional point
  with digits. Every string the parser converts is a capture of \<^verbatim>\<open>-?\d+(?:\.\d+)?\<close>
  or of a part of it. The other spellings Python accepts (an exponent, \<^verbatim>\<open>inf\<close>,
  \<^verbatim>\<open>nan\<close>, underscores, surrounding blanks) are \<open>ValueError\<close> here.
\<close>

definition unsigned_float :: "string \<Rightarrow> error + real" where
  "unsigned_float s =
     (let ip = takeWhile is_digit s; rest = dropWhile is_digit s in
      case rest of
        [] \<Rightarrow> if ip = [] then Inl ValueError else Inr (real (digits_value ip))
      | c # fp \<Rightarrow>
          if c = CHR ''.'' \<and> list_all is_digit fp \<and> (ip \<noteq> [] \<or> fp \<noteq> [])
          then Inr (real (digits_value ip) + real (digits_value fp) / 10 ^ length fp)
          else Inl ValueError)"

definition py_float :: "string \<Rightarrow> error + real" where
  "py_float s =
     (case s of
        [] \<Rightarrow> Inl ValueError
      | c # cs \<Rightarrow>
          if c = CHR ''-'' then bind_e (unsigned_float cs) (\<lambda>v. Inr (- v))
          else if c = CHR ''+'' then unsigned_float cs
          else unsigned_float s)"

section \<open>Regular expressions\<close>

text \<open>
  The fragment of Python's \<^verbatim>\<open>re\<close> the seven grammars are written in: literals, one
  character of a class, a class repeated greedily (\<^verbatim>\<open>+\<close>, \<^verbatim>\<open>*\<close>, \<^verbatim>\<open>{n}\<close>), a greedy
  option (\<^verbatim>\<open>?\<close>), concatenation and named groups.
\<close>

datatype regex =
    Lit string
  | Cls "char \<Rightarrow> bool"
  | Plus "char \<Rightarrow> bool"
  | Star "char \<Rightarrow> bool"
  | Rep nat "char \<Rightarrow> bool"
  | Opt regex
  | Seq regex regex
  | Grp string regex

type_synonym groups = "string \<Rightarrow> string option"

text \<open>
  The backtracking matcher: \<open>rmatch r s g\<close> lists, in the order Python's engine tries
  them, the ways \<open>r\<close> matches a prefix of \<open>s\<close>, each as the rest of \<open>s\<close> and the groups
  captured so far. A greedy repetition offers its longest match first.
\<close>

fun rmatch :: "regex \<Rightarrow> string \<Rightarrow> groups \<Rightarrow> (string \<times> groups) list" where
  "rmatch (Lit l) s g = (if startswith s l then [(drop (length l) s, g)] else [])"
| "rmatch (Cls P) s g = (case s of [] \<Rightarrow> [] | c # cs \<Rightarrow> if P c then [(cs, g)] else [])"
| "rmatch (Plus P) s g =
     map (\<lambda>k. (drop k s, g)) (rev [1 ..< Suc (length (takeWhile P s))])"
| "rmatch (Star P) s g =
     map (\<lambda>k. (drop k s, g)) (rev [0 ..< Suc (length (takeWhile P s))])"
| "rmatch (Rep n P) s g =
     (if n \<le> length s \<and> list_all P (take n s) then [(drop n s, g)] else [])"
| "rmatch (Opt r) s g = rmatch r s g @ [(s, g)]"
| "rmatch (Seq r1 r2) s g = concat (map (\<lambda>(s', g'). rmatch r2 s' g') (rmatch r1 s g))"
| "rmatch (Grp n r) s g =
     map (\<lambda>(s', g'). (s', g'(n \<mapsto> take (length s - length s') s))) (rmatch r s g)"

text \<open>
  \<^verbatim>\<open>pattern.search(s)\<close> followed by \<^verbatim>\<open>match.groupdict()\<close>: the first match at the
  leftmost position that has one. A group that took no part in the match is \<open>None\<close>.
\<close>

fun search :: "regex \<Rightarrow> string \<Rightarrow> groups option" where
  "search r [] = (case rmatch r [] Map.empty of [] \<Rightarrow> None | (s', g) # _ \<Rightarrow> Some g)"
| "search r (c # cs) =
     (case rmatch r (c # cs) Map.empty of [] \<Rightarrow> search r cs | (s', g) # _ \<Rightarrow> Some g)"

definition seq :: "regex list \<Rightarrow> regex" where
  "seq rs = foldr Seq rs (Lit [])"

section \<open>What a match can capture\<close>

text \<open>
  The language of a regular expression and the groups it declares, to state what the
  matcher returns: the text a group captures is a word of the group's body.
\<close>

fun lang :: "regex \<Rightarrow> string set" where
  "lang (Lit l) = {l}"
| "lang (Cls P) = {[c] | c. P c}"
| "lang (Plus P) = {w. w \<noteq> [] \<and> list_all P w}"
| "lang (Star P) = {w. list_all P w}"
| "lang (Rep n P) = {w. length w = n \<and> list_all P w}"
| "lang (Opt r) = insert [] (lang r)"
| "lang (Seq r1 r2) = {u @ v | u v. u \<in> lang r1 \<and> v \<in> lang r2}"
| "lang (Grp n r) = lang r"

fun grps :: "regex \<Rightarrow> (string \<times> regex) list" where
  "grps (Opt r) = grps r"
| "grps (Seq r1 r2) = grps r1 @ grps r2"
| "grps (Grp n r) = (n, r) # grps r"
| "grps (Lit l) = []"
| "grps (Cls P) = []"
| "grps (Plus P) = []"
| "grps (Star P) = []"
| "grps (Rep n P) = []"

text \<open>The groups every match of the expression sets.\<close>

fun mand :: "regex \<Rightarrow> string set" where
  "mand (Seq r1 r2) = mand r1 \<union> mand r2"
| "mand (Grp n r) = insert n (mand r)"
| "mand (Opt r) = {}"
| "mand (Lit l) = {}"
| "mand (Cls P) = {}"
| "mand (Plus P) = {}"
| "mand (Star P) = {}"
| "mand (Rep n P) = {}"

definition caps_ok :: "(string \<times> regex) list \<Rightarrow> groups \<Rightarrow> bool" where
  "caps_ok G g = (\<forall>n w. g n = Some w \<longrightarrow> (\<exists>r. (n, r) \<in> set G \<and> w \<in> lang r))"

definition digits :: "string \<Rightarrow> bool" where
  "digits w = (w \<noteq> [] \<and> list_all is_digit w)"

section \<open>The filename grammars\<close>

definition number_re :: regex where
  "number_re = seq [Plus is_digit, Opt (seq [Lit ''.'', Plus is_digit])]"

definition timestamp_re :: regex where
  "timestamp_re = Opt (Grp ''timestamp'' (seq [Rep 6 is_digit, Lit ''-'', Rep 6 is_digit]))"

text \<open>\<^verbatim>\<open>\d+(?:\.\d+)?(?:k)?eV\<close> and \<^verbatim>\<open>\d+(?:\.\d+)?[kK]?[eE]V\<close>.\<close>

definition energy_re :: regex where
  "energy_re = seq [number_re, Opt (Lit ''k''), Lit ''eV'']"

definition energy_any_case_re :: regex where
  "energy_any_case_re =
     seq [number_re, Opt (Cls (\<lambda>c. c = CHR ''k'' \<or> c = CHR ''K'')),
          Cls (\<lambda>c. c = CHR ''e'' \<or> c = CHR ''E''), Lit ''V'']"

text \<open>\<^verbatim>\<open>[\w\-\.]+\<close>.\<close>

definition token_re :: regex where
  "token_re = Plus (\<lambda>c. is_word c \<or> c = CHR ''-'' \<or> c = CHR ''.'')"

text \<open>The part the detailed and the rotating grammar share, from \<^verbatim>\<open>Beam-\<close> on.\<close>

definition beam_to_end :: "regex list" where
  "beam_to_end =
     [Lit ''Beam-'', Grp ''beam_energy'' energy_re,
      Lit ''_Focus-X-'', Grp ''focus_x'' token_re, Lit ''-Y-'', Grp ''focus_y'' token_re,
      Lit ''_Offset-X-'', Grp ''offset_x'' token_re, Lit ''_Y-'', Grp ''offset_y'' token_re,
      Lit ''_Wave-'', Grp ''wave_type'' (Plus is_word),
      Lit ''_ESA-'', Grp ''esa_voltage'' (seq [Opt (Lit ''-''), number_re]),
      Lit ''_MCP-'', Grp ''mcp_voltage'' number_re,
      Lit ''-'', Grp ''mcp_extra'' (Plus is_digit),
      timestamp_re]"

text \<open>\<^verbatim>\<open>-?\d+(?:to-?\d+)?\<close>.\<close>

definition angle_re :: regex where
  "angle_re =
     seq [Opt (Lit ''-''), Plus is_digit, Opt (seq [Lit ''to'', Opt (Lit ''-''), Plus is_digit])]"

definition detailed :: regex where
  "detailed =
     seq ([Lit ''ACI_ESA-Inner-'', Grp ''inner_angle'' angle_re,
           Lit ''-Hor'', Grp ''hor_value'' (Plus is_digit), Lit ''_''] @ beam_to_end)"

definition simple_energy :: regex where
  "simple_energy =
     seq [Lit ''ACI'', Plus is_space, Lit ''ESA'', Plus is_space,
          Grp ''beam_energy'' energy_re, timestamp_re]"

definition voltage_energy :: regex where
  "voltage_energy =
     seq [Lit ''ACI'', Plus is_space, Lit ''ESA'', Plus is_space,
          Grp ''esa_voltage'' (Plus is_digit), Lit ''V'', Plus is_space,
          Grp ''beam_energy'' energy_any_case_re, Plus is_space, Lit ''BEAM'', timestamp_re]"

definition beam_prep :: regex where
  "beam_prep =
     seq [Lit ''ACI'', Plus is_space, Lit ''ESA'', Plus is_space,
          Grp ''beam_energy'' energy_any_case_re, Plus is_space, Lit ''BEAM'',
          Plus is_space, Lit ''PREP'', timestamp_re]"

definition ramp_up :: regex where
  "ramp_up =
     seq [Lit ''ACI'', Plus is_space, Opt (seq [Lit ''ESA'', Plus is_space]),
          Lit ''RAMP'', Plus is_space, Lit ''UP'',
          Opt (seq [Plus is_space, Grp ''sequence'' (seq [Plus is_word, Star is_digit])]),
          Opt (seq [Plus is_space, Grp ''date'' (Rep 8 is_digit)]),
          Opt (seq [Plus is_space, Lit ''ESA'', Plus is_space,
                    Grp ''esa_voltage'' (Plus is_digit), Lit ''V'']),
          timestamp_re]"

definition dark :: regex where
  "dark =
     seq [Lit ''ACI'', Plus is_space, Lit ''ESA'', Plus is_space, Lit ''Dark'', Plus is_space,
          Grp ''date'' (Rep 6 is_digit), Opt (Lit ''.fits''), timestamp_re]"

definition rotating :: regex where
  "rotating =
     seq ([Lit ''ACI_ESA_Rotating'', Opt (Grp ''sequence'' (Plus is_digit)), Lit ''_'']
          @ beam_to_end)"

text \<open>\<^verbatim>\<open>self.patterns\<close>: a dictionary, iterated in the order of its insertions.\<close>

definition patterns :: "(string \<times> regex) list" where
  "patterns =
     [(''detailed'', detailed), (''simple_energy'', simple_energy),
      (''voltage_energy'', voltage_energy), (''beam_prep'', beam_prep),
      (''ramp_up'', ramp_up), (''dark'', dark), (''rotating'', rotating)]"

text \<open>The shapes of the numeric tokens the grammars capture.\<close>

definition number_tok :: "string \<Rightarrow> bool" where
  "number_tok w = (digits w \<or> (\<exists>a b. digits a \<and> digits b \<and> w = a @ ''.'' @ b))"

definition signed_tok :: "string \<Rightarrow> bool" where
  "signed_tok w = (number_tok w \<or> (\<exists>n. number_tok n \<and> w = CHR ''-'' # n))"

definition sint_tok :: "string \<Rightarrow> bool" where
  "sint_tok w = (digits w \<or> (\<exists>d. digits d \<and> w = CHR ''-'' # d))"

text \<open>The six spellings of the unit of an energy token, the kilo-units last.\<close>

definition kilo_units :: "string list" where
  "kilo_units = [''keV'', ''kEV'', ''KEV'', ''KeV'']"

definition plain_units :: "string list" where
  "plain_units = [''eV'', ''EV'']"

text \<open>What the extraction relies on: every numeric group holds a token it can convert.\<close>

definition wf_groups :: "groups \<Rightarrow> bool" where
  "wf_groups g =
     ((\<forall>w. g ''beam_energy'' = Some w \<longrightarrow>
         (\<exists>num u. number_tok num \<and> u \<in> set (plain_units @ kilo_units) \<and> w = num @ u)) \<and>
      (\<forall>w. g ''esa_voltage'' = Some w \<longrightarrow> signed_tok w) \<and>
      (\<forall>w. g ''mcp_voltage'' = Some w \<longrightarrow> number_tok w) \<and>
      (\<forall>w. g ''hor_value'' = Some w \<longrightarrow> digits w) \<and>
      (\<forall>w. g ''inner_angle'' = Some w \<longrightarrow> w \<in> lang angle_re))"

section \<open>The filename parser\<close>

text \<open>\<^verbatim>\<open>FilenameParser._get_file_type\<close> and \<^verbatim>\<open>_clean_filename_for_parsing\<close>.\<close>

definition get_file_type :: "string \<Rightarrow> string" where
  "get_file_type filename' =
     (if endswith filename' ''.fits'' then ''fits''
      else if endswith filename' ''.map'' then ''map''
      else if endswith filename' ''.phd'' then ''phd''
      else ''unknown'')"

definition clean_filename_for_parsing :: "string \<Rightarrow> string" where
  "clean_filename_for_parsing name =
     (if endswith name ''.fits.map'' then drop_last 9 name
      else if endswith name ''.fits.phd'' then drop_last 9 name
      else if endswith name ''.fits'' then drop_last 5 name
      else if endswith name ''.map'' then drop_last 4 name
      else if endswith name ''.phd'' then drop_last 4 name
      else name)"

text \<open>\<^verbatim>\<open>FilenameParser._parse_energy\<close>.\<close>

definition parse_energy :: "string \<Rightarrow> error + real \<times> string" where
  "parse_energy energy_str =
     (if endswith energy_str ''keV'' \<or> endswith energy_str ''kEV'' \<or>
         endswith energy_str ''KEV'' \<or> endswith energy_str ''KeV''
      then bind_e (py_float (drop_last 3 energy_str)) (\<lambda>v. Inr (v * 1000, ''eV''))
      else if endswith energy_str ''eV'' \<or> endswith energy_str ''EV''
      then bind_e (py_float (drop_last 2 energy_str)) (\<lambda>v. Inr (v, ''eV''))
      else bind_e (py_float energy_str) (\<lambda>v. Inr (v, ''eV'')))"

text \<open>
  \<^verbatim>\<open>FilenameParser._parse_angle\<close>: a number or a pair. The handler of
  \<^verbatim>\<open>ValueError\<close> calls \<^verbatim>\<open>logger.warning\<close>, and the module defines no \<^verbatim>\<open>logger\<close>:
  the handler raises \<^verbatim>\<open>NameError\<close>.
\<close>

datatype angle = Single real | Range real real

definition parse_angle :: "string \<Rightarrow> error + angle" where
  "parse_angle angle_str =
     (if contains ''to'' angle_str then
        let parts = str_split angle_str ''to'' in
        if length parts = 2 then
          (case py_float (parts ! 0) of
             Inl e \<Rightarrow> Inl NameError
           | Inr angle1 \<Rightarrow>
               (case py_float (parts ! 1) of
                  Inl e \<Rightarrow> Inl NameError
                | Inr angle2 \<Rightarrow> Inr (Range (min angle1 angle2) (max angle1 angle2))))
        else bind_e (py_float (parts ! 0)) (\<lambda>v. Inr (Single v))
      else bind_e (py_float angle_str) (\<lambda>v. Inr (Single v)))"

text \<open>
  \<^verbatim>\<open>FilenameParser._parse_timestamp\<close>: \<^verbatim>\<open>strptime\<close> with the format
  \<^verbatim>\<open>%y%m%d-%H%M%S\<close>, \<^verbatim>\<open>ValueError\<close> caught. The token is a capture of
  \<^verbatim>\<open>\d{6}-\d{6}\<close>, which leaves every field its two digits; a field out of range or a
  day the month does not have is \<^verbatim>\<open>ValueError\<close>, hence \<open>None\<close>.
\<close>

definition two_digits :: "string \<Rightarrow> nat \<Rightarrow> nat" where
  "two_digits s i = digits_value (take 2 (drop i s))"

definition is_leap :: "nat \<Rightarrow> bool" where
  "is_leap y = (y mod 4 = 0 \<and> (y mod 100 \<noteq> 0 \<or> y mod 400 = 0))"

definition days_in_month :: "nat \<Rightarrow> nat \<Rightarrow> nat" where
  "days_in_month y m =
     (if m = 2 then (if is_leap y then 29 else 28)
      else if m = 4 \<or> m = 6 \<or> m = 9 \<or> m = 11 then 30 else 31)"

definition parse_timestamp :: "string \<Rightarrow> datetime option" where
  "parse_timestamp timestamp_str =
     (if length timestamp_str = 13 \<and> list_all is_digit (take 6 timestamp_str) \<and>
         timestamp_str ! 6 = CHR ''-'' \<and> list_all is_digit (drop 7 timestamp_str)
      then
        let yy = two_digits timestamp_str 0;
            y = (if yy \<le> 68 then 2000 + yy else 1900 + yy);
            m = two_digits timestamp_str 2;
            d = two_digits timestamp_str 4;
            H = two_digits timestamp_str 7;
            M = two_digits timestamp_str 9;
            S = two_digits timestamp_str 11
        in if 1 \<le> m \<and> m \<le> 12 \<and> 1 \<le> d \<and> d \<le> days_in_month y m \<and>
              H \<le> 23 \<and> M \<le> 59 \<and> S \<le> 59
           then Some \<lparr>year = y, month = m, day = d, hour = H, minute = M, second = S\<rparr>
           else None
      else None)"

text \<open>
  A group of the match that is present and not empty: the test
  \<^verbatim>\<open>'name' in groups and groups['name']\<close>.
\<close>

definition group :: "groups \<Rightarrow> string \<Rightarrow> string option" where
  "group g n = (case g n of None \<Rightarrow> None | Some s \<Rightarrow> if s = [] then None else Some s)"

text \<open>\<^verbatim>\<open>FilenameParser._extract_parameters_from_match\<close>, one block of the source per step.\<close>

definition extract_beam_energy ::
  "groups \<Rightarrow> ExperimentalParameters \<Rightarrow> error + ExperimentalParameters" where
  "extract_beam_energy g params =
     (case group g ''beam_energy'' of
        None \<Rightarrow> Inr params
      | Some s \<Rightarrow> bind_e (parse_energy s) (\<lambda>(v, u).
          Inr (params\<lparr>ExperimentalParameters.beam_energy := Some s,
                      beam_energy_value := Some v, beam_energy_unit := Some u\<rparr>)))"

definition extract_esa_voltage ::
  "groups \<Rightarrow> ExperimentalParameters \<Rightarrow> error + ExperimentalParameters" where
  "extract_esa_voltage g params =
     (case group g ''esa_voltage'' of
        None \<Rightarrow> Inr params
      | Some s \<Rightarrow> bind_e (py_float s) (\<lambda>v.
          Inr (params\<lparr>ExperimentalParameters.esa_voltage := Some s,
                      esa_voltage_value := Some v\<rparr>)))"

definition extract_mcp_voltage ::
  "groups \<Rightarrow> ExperimentalParameters \<Rightarrow> error + ExperimentalParameters" where
  "extract_mcp_voltage g params =
     (case group g ''mcp_voltage'' of
        None \<Rightarrow> Inr params
      | Some s \<Rightarrow> bind_e (py_float s) (\<lambda>v.
          Inr (params\<lparr>mcp_voltage := Some s, mcp_voltage_value := Some v\<rparr>)))"

definition extract_inner_angle ::
  "groups \<Rightarrow> ExperimentalParameters \<Rightarrow> error + ExperimentalParameters" where
  "extract_inner_angle g params =
     (case group g ''inner_angle'' of
        None \<Rightarrow> Inr params
      | Some s \<Rightarrow> bind_e (parse_angle s) (\<lambda>angle_result.
          case angle_result of
            Range lo hi \<Rightarrow>
              Inr (params\<lparr>inner_angle := Some s, inner_angle_range := Some (lo, hi),
                          inner_angle_value := Some ((lo + hi) / 2),
                          ExperimentalParameters.is_angle_range := True\<rparr>)
          | Single v \<Rightarrow>
              Inr (params\<lparr>inner_angle := Some s, inner_angle_value := Some v,
                          ExperimentalParameters.is_angle_range := False\<rparr>)))"

definition extract_horizontal_value ::
  "groups \<Rightarrow> ExperimentalParameters \<Rightarrow> error + ExperimentalParameters" where
  "extract_horizontal_value g params =
     (case group g ''hor_value'' of
        None \<Rightarrow> Inr params
      | Some s \<Rightarrow> bind_e (py_float s) (\<lambda>v.
          Inr (params\<lparr>horizontal_value := Some s, horizontal_value_num := Some v\<rparr>)))"

definition extract_tokens :: "groups \<Rightarrow> ExperimentalParameters \<Rightarrow> ExperimentalParameters" where
  "extract_tokens g params =
     (let p1 = (case group g ''focus_x'' of None \<Rightarrow> params | Some s \<Rightarrow> params\<lparr>focus_x := Some s\<rparr>);
          p2 = (case group g ''focus_y'' of None \<Rightarrow> p1 | Some s \<Rightarrow> p1\<lparr>focus_y := Some s\<rparr>);
          p3 = (case group g ''offset_x'' of None \<Rightarrow> p2 | Some s \<Rightarrow> p2\<lparr>offset_x := Some s\<rparr>);
          p4 = (case group g ''offset_y'' of None \<Rightarrow> p3 | Some s \<Rightarrow> p3\<lparr>offset_y := Some s\<rparr>);
          p5 = (case group g ''wave_type'' of None \<Rightarrow> p4 | Some s \<Rightarrow> p4\<lparr>wave_type := Some s\<rparr>);
          p6 = (case group g ''timestamp'' of None \<Rightarrow> p5
                | Some s \<Rightarrow> p5\<lparr>timestamp := Some s, datetime_obj := parse_timestamp s\<rparr>);
          p7 = (case group g ''sequence'' of None \<Rightarrow> p6 | Some s \<Rightarrow> p6\<lparr>sequence_info := Some s\<rparr>)
      in p7)"

definition set_flags :: "string \<Rightarrow> ExperimentalParameters \<Rightarrow> ExperimentalParameters" where
  "set_flags pattern_name params =
     (if pattern_name = ''dark'' then params\<lparr>is_dark := True\<rparr>
      else if pattern_name = ''ramp_up'' then params\<lparr>is_ramp := True\<rparr>
      else if pattern_name = ''rotating'' then params\<lparr>is_rotating := True\<rparr>
      else params)"

definition extract_parameters_from_match ::
  "ExperimentalParameters \<Rightarrow> groups \<Rightarrow> string \<Rightarrow> error + ExperimentalParameters" where
  "extract_parameters_from_match params g pattern_name =
     bind_e (extract_beam_energy g params) (\<lambda>p1.
     bind_e (extract_esa_voltage g p1) (\<lambda>p2.
     bind_e (extract_mcp_voltage g p2) (\<lambda>p3.
     bind_e (extract_inner_angle g p3) (\<lambda>p4.
     bind_e (extract_horizontal_value g p4) (\<lambda>p5.
     Inr (set_flags pattern_name (extract_tokens g p5)))))))"

text \<open>
  \<^verbatim>\<open>FilenameParser._post_process_parameters\<close>. A field of type \<^verbatim>\<open>Optional[str]\<close> is
  true when it is a string that is not empty.
\<close>

definition truthy :: "string option \<Rightarrow> bool" where
  "truthy v = (case v of None \<Rightarrow> False | Some s \<Rightarrow> s \<noteq> [])"

definition post_process_parameters :: "ExperimentalParameters \<Rightarrow> ExperimentalParameters" where
  "post_process_parameters params =
     (if is_dark params then params\<lparr>test_type := Some ''dark''\<rparr>
      else if is_ramp params then params\<lparr>test_type := Some ''ramp_up''\<rparr>
      else if is_rotating params then params\<lparr>test_type := Some ''rotating''\<rparr>
      else if truthy (ExperimentalParameters.beam_energy params) \<and>
              truthy (ExperimentalParameters.esa_voltage params)
      then params\<lparr>test_type := Some ''voltage_sweep''\<rparr>
      else if truthy (ExperimentalParameters.beam_energy params)
      then params\<lparr>test_type := Some ''energy_test''\<rparr>
      else params\<lparr>test_type := Some ''unknown''\<rparr>)"

text \<open>The record \<^verbatim>\<open>parse_filename\<close> starts from: the defaults of the dataclass.\<close>

definition initial_parameters :: "string \<Rightarrow> string \<Rightarrow> string \<Rightarrow> ExperimentalParameters" where
  "initial_parameters filename' file_type' base_name' =
     \<lparr>ExperimentalParameters.filename = filename',
      file_type = file_type',
      base_name = base_name',
      beam_energy = None, beam_energy_value = None, beam_energy_unit = None,
      esa_voltage = None, esa_voltage_value = None,
      mcp_voltage = None, mcp_voltage_value = None,
      inner_angle = None, inner_angle_value = None, inner_angle_range = None,
      is_angle_range = False,
      horizontal_value = None, horizontal_value_num = None,
      focus_x = None, focus_y = None, offset_x = None, offset_y = None,
      wave_type = None, timestamp = None, datetime_obj = None,
      is_dark = False, is_ramp = False, is_rotating = False,
      test_type = None, sequence_info = None\<rparr>"

text \<open>The loop over the patterns: the first one that matches, with its groups.\<close>

fun first_match :: "(string \<times> regex) list \<Rightarrow> string \<Rightarrow> (string \<times> groups) option" where
  "first_match [] s = None"
| "first_match ((pattern_name, pattern) # ps) s =
     (case search pattern s of
        Some g \<Rightarrow> Some (pattern_name, g)
      | None \<Rightarrow> first_match ps s)"

text \<open>\<^verbatim>\<open>FilenameParser.parse_filename\<close>.\<close>

definition parse_filename :: "string \<Rightarrow> error + ExperimentalParameters" where
  "parse_filename filename' =
     (let base_name' = basename filename';
          file_type' = get_file_type base_name';
          name_for_parsing = clean_filename_for_parsing base_name';
          params = initial_parameters filename' file_type' base_name'
      in bind_e (case first_match patterns name_for_parsing of
                   None \<Rightarrow> Inr params
                 | Some (pattern_name, g) \<Rightarrow>
                     extract_parameters_from_match params g pattern_name)
           (\<lambda>p. Inr (post_process_parameters p)))"

text \<open>
  The classification as the specification words it: the priority dark, ramp, rotating,
  then energy and voltage both present, then energy alone, then unknown. It is compared
  below with what \<^verbatim>\<open>_post_process_parameters\<close> computes.
\<close>

definition test_type_by_priority :: "bool \<Rightarrow> bool \<Rightarrow> bool \<Rightarrow> bool \<Rightarrow> bool \<Rightarrow> string" where
  "test_type_by_priority dark' ramp' rotating' energy_present voltage_present =
     (if dark' then ''dark''
      else if ramp' then ''ramp_up''
      else if rotating' then ''rotating''
      else if energy_present \<and> voltage_present then ''voltage_sweep''
      else if energy_present then ''energy_test''
      else ''unknown'')"

section \<open>numpy reductions\<close>

text \<open>
  \<^verbatim>\<open>np.max\<close> and \<^verbatim>\<open>np.min\<close> raise \<^verbatim>\<open>ValueError\<close> on an array of size zero;
  \<^verbatim>\<open>np.mean\<close> and \<^verbatim>\<open>np.std\<close> return NaN there (with a warning, no exception);
  \<^verbatim>\<open>np.average\<close> with weights raises \<^verbatim>\<open>ZeroDivisionError\<close> when the weights sum to zero.
\<close>

definition np_max :: "'a::linorder list \<Rightarrow> error + 'a" where
  "np_max xs = (if xs = [] then Inl ValueError else Inr (Max (set xs)))"

definition np_min :: "'a::linorder list \<Rightarrow> error + 'a" where
  "np_min xs = (if xs = [] then Inl ValueError else Inr (Min (set xs)))"

definition mean :: "real list \<Rightarrow> real" where
  "mean xs = sum_list xs / real (length xs)"

definition np_mean :: "real list \<Rightarrow> npfloat" where
  "np_mean xs = (if xs = [] then None else Some (mean xs))"

definition std :: "real list \<Rightarrow> real" where
  "std xs = sqrt (mean (map (\<lambda>x. (x - mean xs)\<^sup>2) xs))"

definition np_std :: "real list \<Rightarrow> npfloat" where
  "np_std xs = (if xs = [] then None else Some (std xs))"

definition np_average :: "real list \<Rightarrow> real list \<Rightarrow> error + real" where
  "np_average xs weights =
     (if sum_list weights = 0 then Inl ZeroDivisionError
      else Inr (sum_list (map (\<lambda>(x, w). x * w) (zip xs weights)) / sum_list weights))"

definition np_median :: "real list \<Rightarrow> real" where
  "np_median xs =
     (let s = sort xs; n = length s
      in if even n then (s ! (n div 2 - 1) + s ! (n div 2)) / 2 else s ! (n div 2))"

section \<open>The impact region detector\<close>

text \<open>The analyzer's parameters, as \<^verbatim>\<open>ESAAnalyzer.__init__\<close> sets them.\<close>

definition noise_threshold :: real where
  "noise_threshold = 5 / 100"

definition min_region_size :: nat where
  "min_region_size = 10"

definition DataFile_filename :: "DataFile \<Rightarrow> string" where
  "DataFile_filename f = basename (filepath f)"

text \<open>
  The pixels of an image with their row and column, in row-major order: the order in
  which \<^verbatim>\<open>np.where\<close> and boolean-mask indexing enumerate them.
\<close>

definition indexed :: "image \<Rightarrow> (nat \<times> nat \<times> real) list" where
  "indexed img =
     concat (map (\<lambda>(y, row). map (\<lambda>(x, v). (y, x, v)) (enumerate 0 row)) (enumerate 0 img))"

definition normalized :: "real \<Rightarrow> image \<Rightarrow> image" where
  "normalized mx raw_data = map (map (\<lambda>v. v / mx)) raw_data"

definition significant :: "real \<Rightarrow> image \<Rightarrow> (nat \<times> nat \<times> real) list" where
  "significant threshold normalized_data =
     filter (\<lambda>(y, x, v). v > threshold) (indexed normalized_data)"

definition insignificant :: "real \<Rightarrow> image \<Rightarrow> (nat \<times> nat \<times> real) list" where
  "insignificant threshold normalized_data =
     filter (\<lambda>(y, x, v). \<not> v > threshold) (indexed normalized_data)"

definition signal_to_noise_ratio :: "real list \<Rightarrow> real list \<Rightarrow> npfloat" where
  "signal_to_noise_ratio signal_region noise_region =
     (case (np_mean signal_region, np_std noise_region) of
        (Some m, Some s) \<Rightarrow> Some (m / (s + 1 / 10 ^ 10))
      | _ \<Rightarrow> None)"

definition or_zero :: "real option \<Rightarrow> real" where
  "or_zero v = (case v of None \<Rightarrow> 0 | Some x \<Rightarrow> if x = 0 then 0 else x)"

text \<open>
  \<^verbatim>\<open>ESAAnalyzer._analyze_single_impact_region\<close>. Reading the file is the work of
  \<^verbatim>\<open>DataManager.load_file_data\<close>, taken as the parameter \<open>load_file_data\<close>: it returns
  its boolean result and the data file as it leaves it.
\<close>

definition analyze_single_impact_region ::
  "(DataFile \<Rightarrow> bool \<times> DataFile) \<Rightarrow> DataFile \<Rightarrow> error + ImpactRegion option" where
  "analyze_single_impact_region load_file_data data_file0 =
     (case load_file_data data_file0 of (loaded, data_file) \<Rightarrow>
      if \<not> loaded then Inr None
      else case fits_data data_file of None \<Rightarrow> Inr None | Some fd \<Rightarrow>
      case data fd of None \<Rightarrow> Inr None | Some raw_data \<Rightarrow>
      bind_e (np_max (concat raw_data)) (\<lambda>mx.
      if \<not> mx > 0 then Inr None
      else
        let normalized_data = normalized mx raw_data in
        bind_e (np_max (concat normalized_data)) (\<lambda>peak_value.
        let threshold = peak_value * noise_threshold;
            significant_mask = significant threshold normalized_data
        in
        if length significant_mask < min_region_size then Inr None
        else
          let y_coords = map (\<lambda>(y, x, v). y) significant_mask;
              x_coords = map (\<lambda>(y, x, v). x) significant_mask
          in
          if length x_coords = 0 then Inr None
          else
            let weights = map (\<lambda>(y, x, v). v) significant_mask in
            bind_e (np_average (map real x_coords) weights) (\<lambda>cx.
            bind_e (np_average (map real y_coords) weights) (\<lambda>cy.
            bind_e (np_min x_coords) (\<lambda>mnx.
            bind_e (np_max x_coords) (\<lambda>mxx.
            bind_e (np_min y_coords) (\<lambda>mny.
            bind_e (np_max y_coords) (\<lambda>mxy.
            let signal_region = weights;
                noise_region = map (\<lambda>(y, x, v). v) (insignificant threshold normalized_data);
                snr = signal_to_noise_ratio signal_region noise_region;
                params = parameters data_file
            in
            Inr (Some \<lparr>
              ImpactRegion.filename = DataFile_filename data_file,
              beam_energy = or_zero (beam_energy_value params),
              esa_voltage = or_zero (esa_voltage_value params),
              rotation_angle = inner_angle_value params,
              centroid_x = cx,
              centroid_y = cy,
              peak_intensity = peak_value,
              total_intensity = sum_list weights,
              region_area = length x_coords,
              min_x = mnx,
              max_x = mxx,
              min_y = mny,
              max_y = mxy,
              signal_to_noise = snr,
              data_density = real (length x_coords) / real (length (concat raw_data)),
              rotation_angle_range = inner_angle_range params,
              is_angle_range = ExperimentalParameters.is_angle_range params
            \<rparr>))))))))))"

section \<open>The k-factor estimator\<close>

text \<open>\<^verbatim>\<open>ESAAnalyzer._calculate_theoretical_deflection\<close>.\<close>

definition calculate_theoretical_deflection :: "real \<Rightarrow> real \<Rightarrow> real" where
  "calculate_theoretical_deflection beam_energy' esa_voltage' =
     (if beam_energy' > 0 then esa_voltage' / beam_energy' else 0)"

text \<open>
  \<^verbatim>\<open>ESAMeasurement.calculate_k_factor\<close> stores the estimate in the measurement and
  returns it: the model returns the measurement as updated and the value returned.
\<close>

definition calculate_k_factor :: "ESAMeasurement \<Rightarrow> ESAMeasurement \<times> real option" where
  "calculate_k_factor m =
     (let m' = (if esa_voltage (impact_region m) \<noteq> 0 \<and> beam_energy (impact_region m) \<noteq> 0
                then m\<lparr>k_factor_estimate :=
                         Some (beam_energy (impact_region m) / \<bar>esa_voltage (impact_region m)\<bar>)\<rparr>
                else m)
      in (m', k_factor_estimate m'))"

text \<open>The statistics bundle of \<^verbatim>\<open>estimate_k_factor\<close>, one field per key of its dictionary.\<close>

record KFactorResults =
  k_factor_mean :: real
  k_factor_std :: real
  k_factor_median :: real
  k_factor_range :: "real \<times> real"
  num_measurements :: nat
  measurements :: "ESAMeasurement list"
  k_factors :: "real list"

text \<open>The first loop of \<^verbatim>\<open>estimate_k_factor\<close>: one measurement per admitted region.\<close>

definition detector_center_x :: real where
  "detector_center_x = 512"

fun build_measurements :: "ImpactRegion list \<Rightarrow> ESAMeasurement list" where
  "build_measurements [] = []"
| "build_measurements (region # regions) =
     (if esa_voltage region \<noteq> 0 \<and> beam_energy region \<noteq> 0
      then \<lparr>impact_region = region,
            theoretical_deflection =
              calculate_theoretical_deflection (beam_energy region) (esa_voltage region),
            measured_deflection = (centroid_x region - detector_center_x) / detector_center_x,
            k_factor_estimate = None\<rparr> # build_measurements regions
      else build_measurements regions)"

text \<open>
  The second loop: every measurement is updated in place by \<^verbatim>\<open>calculate_k_factor\<close>,
  and the values that are not \<^verbatim>\<open>None\<close> are collected.
\<close>

fun collect_k_factors :: "ESAMeasurement list \<Rightarrow> ESAMeasurement list \<times> real list" where
  "collect_k_factors [] = ([], [])"
| "collect_k_factors (m # ms) =
     (case calculate_k_factor m of (m', k) \<Rightarrow>
      case collect_k_factors ms of (ms', ks) \<Rightarrow>
        (m' # ms', (case k of None \<Rightarrow> ks | Some v \<Rightarrow> v # ks)))"

text \<open>
  \<^verbatim>\<open>ESAAnalyzer.estimate_k_factor\<close>. The dictionary with the single key
  \<^verbatim>\<open>"error"\<close> is \<open>Inl\<close> of its message.
\<close>

definition estimate_k_factor :: "ImpactRegion list \<Rightarrow> string + KFactorResults" where
  "estimate_k_factor regions =
     (let ms0 = build_measurements regions in
      if ms0 = [] then Inl ''No valid measurements for k-factor estimation''
      else case collect_k_factors ms0 of (ms, ks) \<Rightarrow>
        if ks = [] then Inl ''Could not calculate any k-factors''
        else Inr \<lparr>
          k_factor_mean = mean ks,
          k_factor_std = std ks,
          k_factor_median = np_median ks,
          k_factor_range = (Min (set ks), Max (set ks)),
          num_measurements = length ks,
          measurements = ms,
          k_factors = ks\<rparr>)"

section \<open>Example inputs\<close>

text \<open>A filename of the fully annotated grammar, with a directory and an extension.\<close>

definition detailed_example :: string where
  "detailed_example =
     ''data/ACI_ESA-Inner-84to-118-Hor79_Beam-5keV_Focus-X-1-Y-2_Offset-X-3_Y-4_Wave-Sine_ESA--912_MCP-2200-100.fits''"

text \<open>Three regions: one with a negative beam energy, one admitted, one without voltage.\<close>

definition negative_energy_region :: ImpactRegion where
  "negative_energy_region = \<lparr>ImpactRegion.filename = ''r.fits'', beam_energy = - 1000, esa_voltage = - 181,
     rotation_angle = None, centroid_x = 512, centroid_y = 512, peak_intensity = 1,
     total_intensity = 20, region_area = 20, min_x = 500, max_x = 520, min_y = 500, max_y = 520,
     signal_to_noise = Some 3, data_density = 1 / 100, rotation_angle_range = None,
     is_angle_range = False\<rparr>"

definition positive_energy_region :: ImpactRegion where
  "positive_energy_region = negative_energy_region\<lparr>beam_energy := 1000\<rparr>"

definition no_voltage_region :: ImpactRegion where
  "no_voltage_region = negative_energy_region\<lparr>esa_voltage := 0\<rparr>"

text \<open>
  A data file that holds its image already: \<^verbatim>\<open>load_file_data\<close> returns at once for a
  file with \<^verbatim>\<open>is_loaded\<close> set, and its result is \<^verbatim>\<open>not has_errors\<close>.
\<close>

definition loaded_file :: "image \<Rightarrow> DataFile" where
  "loaded_file img = \<lparr>filepath = ''data/flat.fits'',
     parameters = \<lparr>ExperimentalParameters.filename = ''data/flat.fits'', file_type = ''fits'', base_name = ''flat.fits'',
       beam_energy = None, beam_energy_value = None, beam_energy_unit = None,
       esa_voltage = None, esa_voltage_value = None, mcp_voltage = None, mcp_voltage_value = None,
       inner_angle = None, inner_angle_value = None, inner_angle_range = None, is_angle_range = False,
       horizontal_value = None, horizontal_value_num = None, focus_x = None, focus_y = None,
       offset_x = None, offset_y = None, wave_type = None, timestamp = None, datetime_obj = None,
       is_dark = False, is_ramp = False, is_rotating = False, test_type = Some ''unknown'',
       sequence_info = None\<rparr>,
     file_type = ''fits'',
     fits_data = Some \<lparr>data = Some img, has_errors = False\<rparr>,
     is_loaded = True, has_errors = False, error_messages = []\<rparr>"

definition already_loaded :: "DataFile \<Rightarrow> bool \<times> DataFile" where
  "already_loaded f = (\<not> DataFile.has_errors f, f)"

definition flat_image :: image where
  "flat_image = replicate 4 (replicate 4 1)"

definition zero_image :: image where
  "zero_image = replicate 4 (replicate 4 0)"

definition spot_image :: image where
  "spot_image = [[0, 0, 0, 0, 0], [0, 8, 8, 8, 8], [0, 8, 8, 8, 8], [0, 8, 8, 8, 8]]"

definition faint_image :: image where
  "faint_image = [[0, 0, 0], [0, 100, 1], [0, 2, 3]]"

section \<open>Properties of the matcher\<close>

lemma take_takeWhile_all:
  "k \<le> length (takeWhile P s) \<Longrightarrow> list_all P (take k s)"
proof -
  assume k: "k \<le> length (takeWhile P s)"
  have "take k s = take k (takeWhile P s @ dropWhile P s)"
    by (simp only: takeWhile_dropWhile_id)
  also have "\<dots> = take k (takeWhile P s)"
    using k by (simp del: takeWhile_dropWhile_id)
  finally have "set (take k s) \<subseteq> set (takeWhile P s)"
    by (simp add: set_take_subset)
  then show ?thesis
    by (auto simp: list_all_iff dest: set_takeWhileD)
qed

lemma startswith_append: "startswith s l \<Longrightarrow> s = l @ drop (length l) s"
  by (metis append_take_drop_id startswith_def)

lemma rmatch_sound:
  assumes "(s', g') \<in> set (rmatch r s g)" and "caps_ok G g" and "set (grps r) \<subseteq> set G"
  shows "(\<exists>w. s = w @ s' \<and> w \<in> lang r) \<and> caps_ok G g'"
  using assms
proof (induction r arbitrary: s g s' g')
  case (Lit l)
  then show ?case by (auto split: if_splits dest: startswith_append)
next
  case (Cls P)
  then show ?case by (auto split: list.splits if_splits)
next
  case (Plus P)
  then have "(s', g') \<in> (\<lambda>k. (drop k s, g)) ` {1 ..< Suc (length (takeWhile P s))}"
    by (simp only: rmatch.simps set_map set_rev set_upt)
  then obtain k where "k \<in> {1 ..< Suc (length (takeWhile P s))}" "(s', g') = (drop k s, g)"
    by (rule imageE)
  then have k: "1 \<le> k" "k \<le> length (takeWhile P s)" "s' = drop k s" "g' = g"
    by simp_all
  have "k \<le> length s" using k(2) length_takeWhile_le [of P s] by linarith
  with k(1) have "take k s \<noteq> []" by auto
  with k take_takeWhile_all [OF k(2)] Plus.prems(2) show ?case
    by (auto intro!: exI [of _ "take k s"])
next
  case (Star P)
  then have "(s', g') \<in> (\<lambda>k. (drop k s, g)) ` {0 ..< Suc (length (takeWhile P s))}"
    by (simp only: rmatch.simps set_map set_rev set_upt)
  then obtain k where "k \<in> {0 ..< Suc (length (takeWhile P s))}" "(s', g') = (drop k s, g)"
    by (rule imageE)
  then have k: "k \<le> length (takeWhile P s)" "s' = drop k s" "g' = g"
    by simp_all
  with take_takeWhile_all [OF k(1)] Star.prems(2) show ?case
    by (auto intro!: exI [of _ "take k s"])
next
  case (Rep n P)
  then show ?case
    by (auto split: if_splits intro!: exI [of _ "take n s"])
next
  case (Opt r)
  show ?case
  proof (cases "(s', g') \<in> set (rmatch r s g)")
    case True
    from Opt.prems(3) have "set (grps r) \<subseteq> set G" by simp
    from Opt.IH [OF True Opt.prems(2) this] show ?thesis by auto
  next
    case False
    with Opt.prems(1) have "s' = s" "g' = g" by auto
    with Opt.prems(2) show ?thesis by auto
  qed
next
  case (Seq r1 r2)
  from Seq.prems(1) obtain s1 g1 where
    a: "(s1, g1) \<in> set (rmatch r1 s g)" and b: "(s', g') \<in> set (rmatch r2 s1 g1)"
    by auto
  from Seq.prems(3) have sub: "set (grps r1) \<subseteq> set G" "set (grps r2) \<subseteq> set G" by auto
  from Seq.IH(1) [OF a Seq.prems(2) sub(1)] obtain w1 where
    w1: "s = w1 @ s1" "w1 \<in> lang r1" and c1: "caps_ok G g1" by blast
  from Seq.IH(2) [OF b c1 sub(2)] obtain w2 where
    w2: "s1 = w2 @ s'" "w2 \<in> lang r2" and c2: "caps_ok G g'" by blast
  from w1 w2 have "s = (w1 @ w2) @ s'" "w1 @ w2 \<in> lang (Seq r1 r2)" by auto
  with c2 show ?case by blast
next
  case (Grp n r)
  from Grp.prems(1) obtain g1 where
    a: "(s', g1) \<in> set (rmatch r s g)" and g': "g' = g1(n \<mapsto> take (length s - length s') s)"
    by auto
  from Grp.prems(3) have sub: "set (grps r) \<subseteq> set G" and mem: "(n, r) \<in> set G" by auto
  from Grp.IH [OF a Grp.prems(2) sub] obtain w where
    w: "s = w @ s'" "w \<in> lang r" and c1: "caps_ok G g1" by blast
  from w(1) have "take (length s - length s') s = w" by simp
  with g' w(2) c1 mem have "caps_ok G g'"
    by (auto simp: caps_ok_def)
  with w show ?case by auto
qed

lemma rmatch_mand:
  assumes "(s', g') \<in> set (rmatch r s g)"
  shows "(\<forall>n. g n \<noteq> None \<longrightarrow> g' n \<noteq> None) \<and> (\<forall>n \<in> mand r. g' n \<noteq> None)"
  using assms
proof (induction r arbitrary: s g s' g')
  case (Seq r1 r2)
  from Seq.prems(1) obtain s1 g1 where
    a: "(s1, g1) \<in> set (rmatch r1 s g)" and b: "(s', g') \<in> set (rmatch r2 s1 g1)"
    by auto
  from Seq.IH(1) [OF a] Seq.IH(2) [OF b] show ?case by auto
next
  case (Grp n r)
  from Grp.prems(1) obtain g1 where
    a: "(s', g1) \<in> set (rmatch r s g)" and g': "g' = g1(n \<mapsto> take (length s - length s') s)"
    by auto
  from Grp.IH [OF a] g' show ?case by auto
qed (auto split: if_splits list.splits)

lemma caps_ok_empty: "caps_ok G Map.empty"
  by (simp add: caps_ok_def)

lemma search_sound:
  assumes "search r s = Some g"
  shows "caps_ok (grps r) g \<and> (\<forall>n \<in> mand r. g n \<noteq> None)"
  using assms
proof (induction s)
  case Nil
  then obtain s' gs where "rmatch r [] Map.empty = (s', g) # gs"
    by (auto split: list.splits)
  then have "(s', g) \<in> set (rmatch r [] Map.empty)" by simp
  from rmatch_sound [OF this caps_ok_empty subset_refl] rmatch_mand [OF this]
  show ?case by blast
next
  case (Cons c cs)
  show ?case
  proof (cases "rmatch r (c # cs) Map.empty")
    case Nil
    with Cons show ?thesis by simp
  next
    case (Cons a gs)
    with Cons.prems obtain s' where "rmatch r (c # cs) Map.empty = (s', g) # gs"
      by (cases a) auto
    then have "(s', g) \<in> set (rmatch r (c # cs) Map.empty)" by simp
    from rmatch_sound [OF this caps_ok_empty subset_refl] rmatch_mand [OF this]
    show ?thesis by blast
  qed
qed

lemma first_match_sound:
  assumes "first_match ps s = Some (n, g)"
  shows "\<exists>r. (n, r) \<in> set ps \<and> search r s = Some g"
  using assms
  by (induction ps s rule: first_match.induct) (auto split: option.splits)

section \<open>Properties of the tokens\<close>

lemma not_digit_chars [simp]:
  "\<not> is_digit CHR ''.''" "\<not> is_digit CHR ''-''" "\<not> is_digit CHR ''+''"
  "\<not> is_digit CHR ''t''" "\<not> is_digit CHR ''k''" "\<not> is_digit CHR ''K''"
  "\<not> is_digit CHR ''e''" "\<not> is_digit CHR ''E''" "\<not> is_digit CHR ''V''"
  by (simp_all add: is_digit_def)

lemma digits_all: "digits w \<Longrightarrow> \<forall>c \<in> set w. is_digit c"
  by (simp add: digits_def list_all_iff)

lemma digits_hd: "digits w \<Longrightarrow> \<exists>c cs. w = c # cs \<and> is_digit c"
  by (cases w) (auto simp: digits_def)

lemma digits_last: "digits w \<Longrightarrow> is_digit (last w)"
  by (auto simp: digits_def list_all_iff)

lemma unsigned_float_digits:
  assumes "digits w"
  shows "unsigned_float w = Inr (real (digits_value w))"
proof -
  from assms have tw: "takeWhile is_digit w = w" and dw: "dropWhile is_digit w = []"
    and ne: "w \<noteq> []"
    by (auto simp: digits_def list_all_iff takeWhile_eq_all_conv)
  show ?thesis
    unfolding unsigned_float_def Let_def tw dw using ne by simp
qed

lemma unsigned_float_point:
  assumes "digits a" and "digits b"
  shows "unsigned_float (a @ CHR ''.'' # b) =
           Inr (real (digits_value a) + real (digits_value b) / 10 ^ length b)"
proof -
  from digits_all [OF assms(1)]
  have tw: "takeWhile is_digit (a @ CHR ''.'' # b) = a"
    and dw: "dropWhile is_digit (a @ CHR ''.'' # b) = CHR ''.'' # b"
    by (simp_all add: takeWhile_append2 dropWhile_append2)
  show ?thesis
    unfolding unsigned_float_def Let_def tw dw using assms by (simp add: digits_def)
qed

lemma number_tok_float:
  assumes "number_tok w"
  shows "\<exists>v. py_float w = Inr v \<and> unsigned_float w = Inr v \<and> 0 \<le> v"
proof -
  from assms obtain c cs where w: "w = c # cs" "is_digit c"
    by (auto simp: number_tok_def dest: digits_hd)
  then have "c \<noteq> CHR ''-''" "c \<noteq> CHR ''+''" by auto
  with w have py: "py_float w = unsigned_float w" by (simp add: py_float_def)
  from assms have "\<exists>v. unsigned_float w = Inr v \<and> 0 \<le> v"
    by (auto simp: number_tok_def unsigned_float_digits unsigned_float_point)
  with py show ?thesis by auto
qed

lemma signed_tok_float:
  assumes "signed_tok w"
  shows "\<exists>v. py_float w = Inr v"
  using assms number_tok_float
  by (fastforce simp: signed_tok_def py_float_def bind_e_def)

lemma number_tok_chars:
  assumes "number_tok w"
  shows "w \<noteq> [] \<and> is_digit (last w) \<and> (\<forall>c \<in> set w. is_digit c \<or> c = CHR ''.'')"
  using assms
  by (auto simp: number_tok_def digits_def list_all_iff)

lemma lang_number_re: "w \<in> lang number_re \<Longrightarrow> number_tok w"
  by (auto simp: number_re_def seq_def number_tok_def digits_def)

lemma lang_digits: "w \<in> lang (Plus is_digit) \<Longrightarrow> digits w"
  by (simp add: digits_def)

lemma digits_number: "digits w \<Longrightarrow> number_tok w"
  by (simp add: number_tok_def)

lemma lang_signed_number:
  "w \<in> lang (seq [Opt (Lit ''-''), number_re]) \<Longrightarrow> signed_tok w"
  by (auto simp: seq_def signed_tok_def dest: lang_number_re)

lemma endswith_append [simp]: "endswith (a @ u) u"
  by (simp add: endswith_def)

lemma drop_last_append [simp]: "drop_last (length u) (a @ u) = a"
  by (simp add: drop_last_def)

lemma endswith_same_length:
  "length u = length u' \<Longrightarrow> endswith (a @ u) u' \<longleftrightarrow> u = u'"
  by (auto simp: endswith_def)

lemma endswith_one_longer:
  assumes "a \<noteq> []" and "length u' = Suc (length u)"
  shows "endswith (a @ u) u' \<longleftrightarrow> u' = last a # u"
proof -
  from assms(1) have a: "a = butlast a @ [last a]" by simp
  have "endswith (a @ u) u' \<longleftrightarrow> endswith (butlast a @ (last a # u)) u'"
    by (subst a) simp
  also have "\<dots> \<longleftrightarrow> last a # u = u'"
    using assms(2) by (intro endswith_same_length) simp
  finally show ?thesis by auto
qed

lemma endswith_one_shorter:
  "length u = Suc (length u') \<Longrightarrow> endswith (a @ u) u' \<longleftrightarrow> tl u = u'"
  by (cases u) (auto simp: endswith_def)

lemma parse_energy_plain:
  assumes "number_tok num" and "py_float num = Inr v" and "u \<in> set plain_units"
  shows "parse_energy (num @ u) = Inr (v, ''eV'')"
proof -
  from number_tok_chars [OF assms(1)] have ne: "num \<noteq> []" and d: "is_digit (last num)"
    by simp_all
  from d have k: "last num \<noteq> CHR ''k''" "last num \<noteq> CHR ''K''" by auto
  from assms(3) have u: "u = ''eV'' \<or> u = ''EV''" by (simp add: plain_units_def)
  then have no_kilo: "\<not> endswith (num @ u) ''keV''" "\<not> endswith (num @ u) ''kEV''"
      "\<not> endswith (num @ u) ''KEV''" "\<not> endswith (num @ u) ''KeV''"
    using k by (auto simp: endswith_one_longer [OF ne])
  from u have plain: "endswith (num @ u) ''eV'' \<or> endswith (num @ u) ''EV''" by auto
  from u have "drop_last 2 (num @ u) = num"
    by (auto simp: drop_last_def)
  with no_kilo plain assms(2) show ?thesis
    by (simp add: parse_energy_def bind_e_def)
qed

lemma parse_energy_kilo:
  assumes "py_float num = Inr v" and "u \<in> set kilo_units"
  shows "parse_energy (num @ u) = Inr (v * 1000, ''eV'')"
proof -
  from assms(2) have u: "u = ''keV'' \<or> u = ''kEV'' \<or> u = ''KEV'' \<or> u = ''KeV''"
    by (simp add: kilo_units_def)
  then have kilo: "endswith (num @ u) ''keV'' \<or> endswith (num @ u) ''kEV'' \<or>
      endswith (num @ u) ''KEV'' \<or> endswith (num @ u) ''KeV''" by auto
  from u have "drop_last 3 (num @ u) = num"
    by (auto simp: drop_last_def)
  with kilo assms(1) show ?thesis
    by (simp add: parse_energy_def bind_e_def)
qed

lemma lang_energy_re:
  assumes "w \<in> lang energy_re"
  shows "\<exists>num. number_tok num \<and> (w = num @ ''eV'' \<or> w = num @ ''keV'')"
  using assms by (auto simp: energy_re_def seq_def dest!: lang_number_re)

lemma lang_energy_any_case_re:
  assumes "w \<in> lang energy_any_case_re"
  shows "\<exists>num u. number_tok num \<and> u \<in> set (plain_units @ kilo_units) \<and> w = num @ u"
  using assms
  by (auto simp: energy_any_case_re_def seq_def plain_units_def kilo_units_def dest!: lang_number_re)

lemma unsigned_float_chars:
  assumes "unsigned_float s = Inr v"
  shows "\<forall>c \<in> set s. is_digit c \<or> c = CHR ''.''"
proof -
  have t: "\<forall>c \<in> set (takeWhile is_digit s). is_digit c"
    by (auto dest: set_takeWhileD)
  have d: "\<forall>c \<in> set (dropWhile is_digit s). is_digit c \<or> c = CHR ''.''"
  proof (cases "dropWhile is_digit s")
    case Nil
    show ?thesis unfolding Nil by simp
  next
    case (Cons c fp)
    from assms have "c = CHR ''.''" "list_all is_digit fp"
      unfolding unsigned_float_def Let_def Cons by (auto split: if_splits)
    then show ?thesis unfolding Cons by (auto simp: list_all_iff)
  qed
  show ?thesis
  proof
    fix c
    assume "c \<in> set s"
    then have "c \<in> set (takeWhile is_digit s) \<union> set (dropWhile is_digit s)"
      by (metis set_append takeWhile_dropWhile_id)
    with t d show "is_digit c \<or> c = CHR ''.''" by blast
  qed
qed

lemma py_float_no_t:
  assumes "py_float s = Inr v"
  shows "CHR ''t'' \<notin> set s"
proof -
  from assms have "\<forall>c \<in> set s. is_digit c \<or> c = CHR ''.'' \<or> c = CHR ''-'' \<or> c = CHR ''+''"
    by (cases s)
       (auto simp: py_float_def bind_e_def split: if_splits sum.splits dest!: unsigned_float_chars)
  then show ?thesis by auto
qed

lemma contains_no_t: "CHR ''t'' \<notin> set w \<Longrightarrow> \<not> contains ''to'' w"
  by (induction w) (auto simp: startswith_def)

lemma contains_to: "contains ''to'' (a @ ''to'' @ b)"
  by (induction a) (auto simp: startswith_def)

lemma split_from_no_t:
  "CHR ''t'' \<notin> set b \<Longrightarrow> split_from ''to'' acc b = [rev acc @ b]"
  by (induction b arbitrary: acc) (auto simp: startswith_def)

lemma split_from_to:
  "CHR ''t'' \<notin> set a \<Longrightarrow>
     split_from ''to'' acc (a @ ''to'' @ b) = (rev acc @ a) # split_from ''to'' [] b"
  by (induction a arbitrary: acc) (auto simp: startswith_def)

lemma str_split_to:
  assumes "CHR ''t'' \<notin> set a" and "CHR ''t'' \<notin> set b"
  shows "str_split (a @ ''to'' @ b) ''to'' = [a, b]"
  using split_from_to [OF assms(1), of "[]" b] split_from_no_t [OF assms(2), of "[]"]
  by (simp add: str_split_def)

lemma parse_angle_range:
  assumes "py_float a = Inr A" and "py_float b = Inr B"
  shows "parse_angle (a @ ''to'' @ b) = Inr (Range (min A B) (max A B))"
proof -
  have "str_split (a @ ''to'' @ b) ''to'' = [a, b]"
    using assms by (intro str_split_to py_float_no_t)
  with contains_to [of a b] assms show ?thesis
    unfolding parse_angle_def by (simp add: Let_def)
qed

lemma parse_angle_single:
  assumes "py_float w = Inr v"
  shows "parse_angle w = Inr (Single v)"
  using assms contains_no_t [OF py_float_no_t [OF assms]]
  by (simp add: parse_angle_def bind_e_def)

lemma sint_signed: "sint_tok w \<Longrightarrow> signed_tok w"
  by (auto simp: sint_tok_def signed_tok_def number_tok_def)

lemma sint_tok_intros:
  "digits d \<Longrightarrow> sint_tok d" "digits d \<Longrightarrow> sint_tok (CHR ''-'' # d)"
  by (auto simp: sint_tok_def)

lemma lang_SeqE:
  assumes "w \<in> lang (Seq r1 r2)"
  obtains u v where "w = u @ v" and "u \<in> lang r1" and "v \<in> lang r2"
  using assms by auto

lemma lang_sint:
  assumes "u \<in> lang (Opt (Lit ''-''))" and "v \<in> lang (Seq (Plus is_digit) r)"
  obtains a t where "u @ v = a @ t" and "sint_tok a" and "t \<in> lang r"
proof -
  from assms(2) obtain d t where v: "v = d @ t" and d: "d \<in> lang (Plus is_digit)"
    and t: "t \<in> lang r"
    by (rule lang_SeqE)
  from d have "digits d" by (simp add: digits_def)
  with assms(1) have "sint_tok (u @ d)"
    by (auto intro: sint_tok_intros)
  with v t that [of "u @ d" t] show ?thesis by simp
qed

lemma lang_angle_re:
  assumes "w \<in> lang angle_re"
  shows "sint_tok w \<or> (\<exists>a b. sint_tok a \<and> sint_tok b \<and> w = a @ ''to'' @ b)"
proof -
  let ?tail = "Seq (Lit ''to'') (Seq (Opt (Lit ''-'')) (Seq (Plus is_digit) (Lit [])))"
  from assms have "w \<in> lang (Seq (Opt (Lit ''-'')) (Seq (Plus is_digit) (Seq (Opt ?tail) (Lit []))))"
    by (simp only: angle_re_def seq_def foldr.simps o_apply id_apply)
  then obtain u v where w: "w = u @ v" and u: "u \<in> lang (Opt (Lit ''-''))"
    and v: "v \<in> lang (Seq (Plus is_digit) (Seq (Opt ?tail) (Lit [])))"
    by (rule lang_SeqE)
  from lang_sint [OF u v] obtain a t where at: "u @ v = a @ t" and a: "sint_tok a"
    and t: "t \<in> lang (Seq (Opt ?tail) (Lit []))"
    by blast
  from t have "t \<in> lang (Opt ?tail)" by auto
  then have "t = [] \<or> t \<in> lang ?tail" by simp
  then show ?thesis
  proof
    assume "t = []"
    with w at a show ?thesis by simp
  next
    assume "t \<in> lang ?tail"
    then obtain x y where xy: "t = x @ y" and x: "x \<in> lang (Lit ''to'')"
      and y: "y \<in> lang (Seq (Opt (Lit ''-'')) (Seq (Plus is_digit) (Lit [])))"
      by (rule lang_SeqE)
    from y obtain y1 y2 where y12: "y = y1 @ y2" and y1: "y1 \<in> lang (Opt (Lit ''-''))"
      and y2: "y2 \<in> lang (Seq (Plus is_digit) (Lit []))"
      by (rule lang_SeqE)
    from lang_sint [OF y1 y2] obtain b e where be: "y1 @ y2 = b @ e" and b: "sint_tok b"
      and e: "e \<in> lang (Lit [])"
      by blast
    from e be y12 have "y = b" by simp
    with xy x w at have "w = a @ ''to'' @ b" by simp
    with a b show ?thesis by blast
  qed
qed

lemma angle_tok_parses:
  assumes "w \<in> lang angle_re"
  shows "\<exists>r. parse_angle w = Inr r"
proof -
  from lang_angle_re [OF assms] show ?thesis
  proof
    assume "sint_tok w"
    from signed_tok_float [OF sint_signed [OF this]] parse_angle_single show ?thesis by blast
  next
    assume "\<exists>a b. sint_tok a \<and> sint_tok b \<and> w = a @ ''to'' @ b"
    then obtain a b where ab: "sint_tok a" "sint_tok b" "w = a @ ''to'' @ b" by blast
    from signed_tok_float [OF sint_signed [OF ab(1)]] signed_tok_float [OF sint_signed [OF ab(2)]]
    obtain A B where "py_float a = Inr A" "py_float b = Inr B" by blast
    from parse_angle_range [OF this] ab(3) show ?thesis by blast
  qed
qed

section \<open>Properties of the extraction\<close>

lemma group_nonempty: "group g n = Some s \<Longrightarrow> s \<noteq> []"
  by (auto simp: group_def split: option.splits if_splits)

lemma extract_tokens_frame:
  "ExperimentalParameters.beam_energy (extract_tokens g p) = ExperimentalParameters.beam_energy p"
  "beam_energy_value (extract_tokens g p) = beam_energy_value p"
  "beam_energy_unit (extract_tokens g p) = beam_energy_unit p"
  "ExperimentalParameters.esa_voltage (extract_tokens g p) = ExperimentalParameters.esa_voltage p"
  "inner_angle (extract_tokens g p) = inner_angle p"
  "inner_angle_value (extract_tokens g p) = inner_angle_value p"
  "inner_angle_range (extract_tokens g p) = inner_angle_range p"
  "ExperimentalParameters.is_angle_range (extract_tokens g p) = ExperimentalParameters.is_angle_range p"
  "is_dark (extract_tokens g p) = is_dark p"
  "is_ramp (extract_tokens g p) = is_ramp p"
  "is_rotating (extract_tokens g p) = is_rotating p"
  by (simp_all add: extract_tokens_def Let_def split: option.splits)

lemma set_flags_frame:
  "ExperimentalParameters.beam_energy (set_flags n p) = ExperimentalParameters.beam_energy p"
  "beam_energy_value (set_flags n p) = beam_energy_value p"
  "beam_energy_unit (set_flags n p) = beam_energy_unit p"
  "ExperimentalParameters.esa_voltage (set_flags n p) = ExperimentalParameters.esa_voltage p"
  "inner_angle (set_flags n p) = inner_angle p"
  "inner_angle_value (set_flags n p) = inner_angle_value p"
  "inner_angle_range (set_flags n p) = inner_angle_range p"
  "ExperimentalParameters.is_angle_range (set_flags n p) = ExperimentalParameters.is_angle_range p"
  by (simp_all add: set_flags_def)

lemma post_process_frame:
  "ExperimentalParameters.beam_energy (post_process_parameters p) = ExperimentalParameters.beam_energy p"
  "beam_energy_value (post_process_parameters p) = beam_energy_value p"
  "beam_energy_unit (post_process_parameters p) = beam_energy_unit p"
  "ExperimentalParameters.esa_voltage (post_process_parameters p) = ExperimentalParameters.esa_voltage p"
  "inner_angle (post_process_parameters p) = inner_angle p"
  "inner_angle_value (post_process_parameters p) = inner_angle_value p"
  "inner_angle_range (post_process_parameters p) = inner_angle_range p"
  "ExperimentalParameters.is_angle_range (post_process_parameters p) = ExperimentalParameters.is_angle_range p"
  "is_dark (post_process_parameters p) = is_dark p"
  "is_ramp (post_process_parameters p) = is_ramp p"
  "is_rotating (post_process_parameters p) = is_rotating p"
  by (simp_all add: post_process_parameters_def)

lemma post_process_idem:
  "post_process_parameters (post_process_parameters p) = post_process_parameters p"
  by (simp add: post_process_parameters_def)

lemma extract_beam_energy_cases:
  assumes "extract_beam_energy g p = Inr p'"
  shows "group g ''beam_energy'' = None \<and> p' = p \<or>
         (\<exists>s v u. group g ''beam_energy'' = Some s \<and> parse_energy s = Inr (v, u) \<and>
            p' = p\<lparr>ExperimentalParameters.beam_energy := Some s, beam_energy_value := Some v,
                   beam_energy_unit := Some u\<rparr>)"
  using assms by (auto simp: extract_beam_energy_def bind_e_def split: option.splits sum.splits)

lemma extract_esa_voltage_cases:
  assumes "extract_esa_voltage g p = Inr p'"
  shows "group g ''esa_voltage'' = None \<and> p' = p \<or>
         (\<exists>s v. group g ''esa_voltage'' = Some s \<and> py_float s = Inr v \<and>
            p' = p\<lparr>ExperimentalParameters.esa_voltage := Some s, esa_voltage_value := Some v\<rparr>)"
  using assms by (auto simp: extract_esa_voltage_def bind_e_def split: option.splits sum.splits)

lemma extract_mcp_voltage_cases:
  assumes "extract_mcp_voltage g p = Inr p'"
  shows "group g ''mcp_voltage'' = None \<and> p' = p \<or>
         (\<exists>s v. group g ''mcp_voltage'' = Some s \<and> py_float s = Inr v \<and>
            p' = p\<lparr>mcp_voltage := Some s, mcp_voltage_value := Some v\<rparr>)"
  using assms by (auto simp: extract_mcp_voltage_def bind_e_def split: option.splits sum.splits)

lemma extract_inner_angle_cases:
  assumes "extract_inner_angle g p = Inr p'"
  shows "group g ''inner_angle'' = None \<and> p' = p \<or>
         (\<exists>s lo hi. group g ''inner_angle'' = Some s \<and> parse_angle s = Inr (Range lo hi) \<and>
            p' = p\<lparr>inner_angle := Some s, inner_angle_range := Some (lo, hi),
                   inner_angle_value := Some ((lo + hi) / 2),
                   ExperimentalParameters.is_angle_range := True\<rparr>) \<or>
         (\<exists>s v. group g ''inner_angle'' = Some s \<and> parse_angle s = Inr (Single v) \<and>
            p' = p\<lparr>inner_angle := Some s, inner_angle_value := Some v,
                   ExperimentalParameters.is_angle_range := False\<rparr>)"
  using assms
  by (auto simp: extract_inner_angle_def bind_e_def split: option.splits sum.splits angle.splits)

lemma extract_horizontal_value_cases:
  assumes "extract_horizontal_value g p = Inr p'"
  shows "group g ''hor_value'' = None \<and> p' = p \<or>
         (\<exists>s v. group g ''hor_value'' = Some s \<and> py_float s = Inr v \<and>
            p' = p\<lparr>horizontal_value := Some s, horizontal_value_num := Some v\<rparr>)"
  using assms by (auto simp: extract_horizontal_value_def bind_e_def split: option.splits sum.splits)

lemma extract_steps:
  assumes "extract_parameters_from_match p g n = Inr q"
  shows "\<exists>p1 p2 p3 p4 p5. extract_beam_energy g p = Inr p1 \<and> extract_esa_voltage g p1 = Inr p2 \<and>
           extract_mcp_voltage g p2 = Inr p3 \<and> extract_inner_angle g p3 = Inr p4 \<and>
           extract_horizontal_value g p4 = Inr p5 \<and> q = set_flags n (extract_tokens g p5)"
  using assms
  by (auto simp: extract_parameters_from_match_def bind_e_def split: sum.splits)

lemma extract_inner_angle_field:
  assumes "extract_parameters_from_match p g n = Inr q" and "inner_angle p = None"
    and "inner_angle q = Some tok"
  shows "\<exists>a. parse_angle tok = Inr a \<and>
           (case a of
              Range lo hi \<Rightarrow> inner_angle_range q = Some (lo, hi) \<and>
                 inner_angle_value q = Some ((lo + hi) / 2) \<and> ExperimentalParameters.is_angle_range q
            | Single v \<Rightarrow> inner_angle_value q = Some v \<and> \<not> ExperimentalParameters.is_angle_range q)"
proof -
  from extract_steps [OF assms(1)] obtain p1 p2 p3 p4 p5 where
    s: "extract_beam_energy g p = Inr p1" "extract_esa_voltage g p1 = Inr p2"
       "extract_mcp_voltage g p2 = Inr p3" "extract_inner_angle g p3 = Inr p4"
       "extract_horizontal_value g p4 = Inr p5" and q: "q = set_flags n (extract_tokens g p5)"
    by blast
  from extract_beam_energy_cases [OF s(1)] assms(2) have 1: "inner_angle p1 = None" by auto
  from extract_esa_voltage_cases [OF s(2)] 1 have 2: "inner_angle p2 = None" by auto
  from extract_mcp_voltage_cases [OF s(3)] 2 have 3: "inner_angle p3 = None" by auto
  from q assms(3) have 5: "inner_angle p5 = Some tok"
    by (simp add: set_flags_frame extract_tokens_frame)
  with extract_horizontal_value_cases [OF s(5)] have 4: "inner_angle p4 = Some tok" by auto
  have f5: "inner_angle_range q = inner_angle_range p4" "inner_angle_value q = inner_angle_value p4"
      "ExperimentalParameters.is_angle_range q = ExperimentalParameters.is_angle_range p4"
    using extract_horizontal_value_cases [OF s(5)] q
    by (auto simp: set_flags_frame extract_tokens_frame)
  from extract_inner_angle_cases [OF s(4)] 3 4 show ?thesis
    unfolding f5 by auto
qed

lemma grps_bodies [simp]:
  "grps number_re = []" "grps energy_re = []" "grps energy_any_case_re = []"
  "grps token_re = []" "grps angle_re = []"
  "grps (seq [Opt (Lit ''-''), number_re]) = []"
  "grps (seq [Rep 6 is_digit, Lit ''-'', Rep 6 is_digit]) = []"
  "grps (seq [Plus is_word, Star is_digit]) = []"
  by (simp_all add: number_re_def energy_re_def energy_any_case_re_def token_re_def angle_re_def
      seq_def)

lemma grps_timestamp_re:
  "grps timestamp_re = [(''timestamp'', seq [Rep 6 is_digit, Lit ''-'', Rep 6 is_digit])]"
  unfolding timestamp_re_def by (simp only: grps.simps grps_bodies)

lemma grps_seq_Cons: "grps (seq (r # rs)) = grps r @ grps (seq rs)"
  by (simp add: seq_def)

lemma grps_seq_Nil: "grps (seq []) = []"
  by (simp add: seq_def)

lemmas grps_simps = grps_seq_Cons grps_seq_Nil grps.simps grps_bodies grps_timestamp_re
  append_Cons append_Nil append_Nil2

lemma grps_beam_to_end:
  "grps (seq (rs @ beam_to_end)) = grps (seq rs) @
     [(''beam_energy'', energy_re), (''focus_x'', token_re), (''focus_y'', token_re),
      (''offset_x'', token_re), (''offset_y'', token_re), (''wave_type'', Plus is_word),
      (''esa_voltage'', seq [Opt (Lit ''-''), number_re]), (''mcp_voltage'', number_re),
      (''mcp_extra'', Plus is_digit),
      (''timestamp'', seq [Rep 6 is_digit, Lit ''-'', Rep 6 is_digit])]"
proof (induction rs)
  case Nil
  show ?case unfolding beam_to_end_def by (simp only: grps_simps)
next
  case (Cons r rs)
  then show ?case by (simp add: grps_seq_Cons)
qed

lemma grps_detailed:
  "grps detailed =
     [(''inner_angle'', angle_re), (''hor_value'', Plus is_digit),
      (''beam_energy'', energy_re), (''focus_x'', token_re), (''focus_y'', token_re),
      (''offset_x'', token_re), (''offset_y'', token_re), (''wave_type'', Plus is_word),
      (''esa_voltage'', seq [Opt (Lit ''-''), number_re]), (''mcp_voltage'', number_re),
      (''mcp_extra'', Plus is_digit),
      (''timestamp'', seq [Rep 6 is_digit, Lit ''-'', Rep 6 is_digit])]"
  unfolding detailed_def grps_beam_to_end by (simp only: grps_simps)

lemma grps_rotating:
  "grps rotating =
     [(''sequence'', Plus is_digit),
      (''beam_energy'', energy_re), (''focus_x'', token_re), (''focus_y'', token_re),
      (''offset_x'', token_re), (''offset_y'', token_re), (''wave_type'', Plus is_word),
      (''esa_voltage'', seq [Opt (Lit ''-''), number_re]), (''mcp_voltage'', number_re),
      (''mcp_extra'', Plus is_digit),
      (''timestamp'', seq [Rep 6 is_digit, Lit ''-'', Rep 6 is_digit])]"
  unfolding rotating_def grps_beam_to_end by (simp only: grps_simps)

lemma grps_simple_energy:
  "grps simple_energy =
     [(''beam_energy'', energy_re),
      (''timestamp'', seq [Rep 6 is_digit, Lit ''-'', Rep 6 is_digit])]"
  unfolding simple_energy_def by (simp only: grps_simps)

lemma grps_voltage_energy:
  "grps voltage_energy =
     [(''esa_voltage'', Plus is_digit), (''beam_energy'', energy_any_case_re),
      (''timestamp'', seq [Rep 6 is_digit, Lit ''-'', Rep 6 is_digit])]"
  unfolding voltage_energy_def by (simp only: grps_simps)

lemma grps_beam_prep:
  "grps beam_prep =
     [(''beam_energy'', energy_any_case_re),
      (''timestamp'', seq [Rep 6 is_digit, Lit ''-'', Rep 6 is_digit])]"
  unfolding beam_prep_def by (simp only: grps_simps)

lemma grps_ramp_up:
  "grps ramp_up =
     [(''sequence'', seq [Plus is_word, Star is_digit]), (''date'', Rep 8 is_digit),
      (''esa_voltage'', Plus is_digit),
      (''timestamp'', seq [Rep 6 is_digit, Lit ''-'', Rep 6 is_digit])]"
  unfolding ramp_up_def by (simp only: grps_simps)

lemma grps_dark:
  "grps dark =
     [(''date'', Rep 6 is_digit),
      (''timestamp'', seq [Rep 6 is_digit, Lit ''-'', Rep 6 is_digit])]"
  unfolding dark_def by (simp only: grps_simps)

lemma caps_lookup:
  assumes "caps_ok G g" and "g n = Some w"
  shows "\<exists>r \<in> set (map snd (filter (\<lambda>p. fst p = n) G)). w \<in> lang r"
  using assms by (force simp: caps_ok_def)

lemma energy_units:
  assumes "w \<in> lang energy_re \<or> w \<in> lang energy_any_case_re"
  shows "\<exists>num u. number_tok num \<and> u \<in> set (plain_units @ kilo_units) \<and> w = num @ u"
  using assms
proof
  assume "w \<in> lang energy_re"
  from lang_energy_re [OF this] show ?thesis
    by (auto simp: plain_units_def kilo_units_def)
next
  assume "w \<in> lang energy_any_case_re"
  from lang_energy_any_case_re [OF this] show ?thesis .
qed

lemma voltage_signed:
  assumes "w \<in> lang (seq [Opt (Lit ''-''), number_re]) \<or> w \<in> lang (Plus is_digit)"
  shows "signed_tok w"
  using assms
proof
  assume "w \<in> lang (seq [Opt (Lit ''-''), number_re])"
  then show ?thesis by (rule lang_signed_number)
next
  assume "w \<in> lang (Plus is_digit)"
  then have "number_tok w" by (intro digits_number lang_digits)
  then show ?thesis by (simp add: signed_tok_def)
qed

lemma wf_groups_of_caps:
  assumes "caps_ok G g"
    and "\<forall>r \<in> set (map snd (filter (\<lambda>p. fst p = ''beam_energy'') G)). r = energy_re \<or> r = energy_any_case_re"
    and "\<forall>r \<in> set (map snd (filter (\<lambda>p. fst p = ''esa_voltage'') G)).
           r = seq [Opt (Lit ''-''), number_re] \<or> r = Plus is_digit"
    and "\<forall>r \<in> set (map snd (filter (\<lambda>p. fst p = ''mcp_voltage'') G)). r = number_re"
    and "\<forall>r \<in> set (map snd (filter (\<lambda>p. fst p = ''hor_value'') G)). r = Plus is_digit"
    and "\<forall>r \<in> set (map snd (filter (\<lambda>p. fst p = ''inner_angle'') G)). r = angle_re"
  shows "wf_groups g"
  unfolding wf_groups_def
proof (intro conjI allI impI)
  fix w assume "g ''beam_energy'' = Some w"
  from caps_lookup [OF assms(1) this] assms(2)
  have "w \<in> lang energy_re \<or> w \<in> lang energy_any_case_re" by auto
  then show "\<exists>num u. number_tok num \<and> u \<in> set (plain_units @ kilo_units) \<and> w = num @ u"
    by (rule energy_units)
next
  fix w assume "g ''esa_voltage'' = Some w"
  from caps_lookup [OF assms(1) this] assms(3)
  have "w \<in> lang (seq [Opt (Lit ''-''), number_re]) \<or> w \<in> lang (Plus is_digit)" by auto
  then show "signed_tok w" by (rule voltage_signed)
next
  fix w assume "g ''mcp_voltage'' = Some w"
  from caps_lookup [OF assms(1) this] assms(4)
  have "w \<in> lang number_re" by auto
  then show "number_tok w" by (rule lang_number_re)
next
  fix w assume "g ''hor_value'' = Some w"
  from caps_lookup [OF assms(1) this] assms(5)
  have "w \<in> lang (Plus is_digit)" by auto
  then show "digits w" by (rule lang_digits)
next
  fix w assume "g ''inner_angle'' = Some w"
  from caps_lookup [OF assms(1) this] assms(6)
  show "w \<in> lang angle_re" by auto
qed

lemma patterns_wf:
  assumes "(n, r) \<in> set patterns" and "caps_ok (grps r) g"
  shows "wf_groups g"
proof -
  from assms(1) consider "r = detailed" | "r = simple_energy" | "r = voltage_energy"
    | "r = beam_prep" | "r = ramp_up" | "r = dark" | "r = rotating"
    by (auto simp: patterns_def)
  then show ?thesis
  proof cases
    case 1
    with assms(2) show ?thesis
      by (intro wf_groups_of_caps [of "grps detailed"]) (simp_all add: grps_detailed)
  next
    case 2
    with assms(2) show ?thesis
      by (intro wf_groups_of_caps [of "grps simple_energy"]) (simp_all add: grps_simple_energy)
  next
    case 3
    with assms(2) show ?thesis
      by (intro wf_groups_of_caps [of "grps voltage_energy"]) (simp_all add: grps_voltage_energy)
  next
    case 4
    with assms(2) show ?thesis
      by (intro wf_groups_of_caps [of "grps beam_prep"]) (simp_all add: grps_beam_prep)
  next
    case 5
    with assms(2) show ?thesis
      by (intro wf_groups_of_caps [of "grps ramp_up"]) (simp_all add: grps_ramp_up)
  next
    case 6
    with assms(2) show ?thesis
      by (intro wf_groups_of_caps [of "grps dark"]) (simp_all add: grps_dark)
  next
    case 7
    with assms(2) show ?thesis
      by (intro wf_groups_of_caps [of "grps rotating"]) (simp_all add: grps_rotating)
  qed
qed

lemma first_match_wf:
  assumes "first_match patterns s = Some (n, g)"
  shows "wf_groups g"
proof -
  from first_match_sound [OF assms] obtain r where
    r: "(n, r) \<in> set patterns" "search r s = Some g" by blast
  from search_sound [OF r(2)] have "caps_ok (grps r) g" by blast
  with r(1) show ?thesis by (rule patterns_wf)
qed

lemma group_Some: "group g n = Some s \<Longrightarrow> g n = Some s"
  by (auto simp: group_def split: option.splits if_splits)

lemma parse_energy_units:
  assumes "number_tok num" and "u \<in> set (plain_units @ kilo_units)"
  shows "\<exists>v. py_float num = Inr v \<and>
           parse_energy (num @ u) = Inr (if u \<in> set kilo_units then v * 1000 else v, ''eV'')"
proof -
  from number_tok_float [OF assms(1)] obtain v where v: "py_float num = Inr v" by blast
  show ?thesis
  proof (cases "u \<in> set kilo_units")
    case True
    from parse_energy_kilo [OF v True] v True show ?thesis by simp
  next
    case False
    with assms(2) have "u \<in> set plain_units" by simp
    from parse_energy_plain [OF assms(1) v this] v False show ?thesis by simp
  qed
qed

lemma extract_total:
  assumes "wf_groups g"
  shows "\<exists>q. extract_parameters_from_match p g n = Inr q"
proof -
  have 1: "\<exists>p1. extract_beam_energy g p = Inr p1" for p
  proof (cases "group g ''beam_energy''")
    case None
    then show ?thesis by (simp add: extract_beam_energy_def)
  next
    case (Some w)
    from group_Some [OF this] assms obtain num u where
      "number_tok num" "u \<in> set (plain_units @ kilo_units)" "w = num @ u"
      unfolding wf_groups_def by blast
    with parse_energy_units [of num u] Some show ?thesis
      by (auto simp: extract_beam_energy_def bind_e_def)
  qed
  have 2: "\<exists>p2. extract_esa_voltage g p = Inr p2" for p
  proof (cases "group g ''esa_voltage''")
    case None
    then show ?thesis by (simp add: extract_esa_voltage_def)
  next
    case (Some w)
    from group_Some [OF this] assms have "signed_tok w"
      unfolding wf_groups_def by blast
    from signed_tok_float [OF this] Some show ?thesis
      by (auto simp: extract_esa_voltage_def bind_e_def)
  qed
  have 3: "\<exists>p3. extract_mcp_voltage g p = Inr p3" for p
  proof (cases "group g ''mcp_voltage''")
    case None
    then show ?thesis by (simp add: extract_mcp_voltage_def)
  next
    case (Some w)
    from group_Some [OF this] assms have "number_tok w"
      unfolding wf_groups_def by blast
    from number_tok_float [OF this] Some show ?thesis
      by (auto simp: extract_mcp_voltage_def bind_e_def)
  qed
  have 4: "\<exists>p4. extract_inner_angle g p = Inr p4" for p
  proof (cases "group g ''inner_angle''")
    case None
    then show ?thesis by (simp add: extract_inner_angle_def)
  next
    case (Some w)
    from group_Some [OF this] assms have "w \<in> lang angle_re"
      unfolding wf_groups_def by blast
    from angle_tok_parses [OF this] Some show ?thesis
      by (auto simp: extract_inner_angle_def bind_e_def split: angle.splits)
  qed
  have 5: "\<exists>p5. extract_horizontal_value g p = Inr p5" for p
  proof (cases "group g ''hor_value''")
    case None
    then show ?thesis by (simp add: extract_horizontal_value_def)
  next
    case (Some w)
    from group_Some [OF this] assms have "digits w"
      unfolding wf_groups_def by blast
    from number_tok_float [OF digits_number [OF this]] Some show ?thesis
      by (auto simp: extract_horizontal_value_def bind_e_def)
  qed
  from 1 obtain p1 where p1: "extract_beam_energy g p = Inr p1" by blast
  from 2 obtain p2 where p2: "extract_esa_voltage g p1 = Inr p2" by blast
  from 3 obtain p3 where p3: "extract_mcp_voltage g p2 = Inr p3" by blast
  from 4 obtain p4 where p4: "extract_inner_angle g p3 = Inr p4" by blast
  from 5 obtain p5 where p5: "extract_horizontal_value g p4 = Inr p5" by blast
  from p1 p2 p3 p4 p5 show ?thesis
    by (simp add: extract_parameters_from_match_def bind_e_def)
qed

lemma parse_filename_total: "\<exists>p. parse_filename fn = Inr p"
proof (cases "first_match patterns (clean_filename_for_parsing (basename fn))")
  case None
  then show ?thesis by (simp add: parse_filename_def bind_e_def Let_def)
next
  case (Some m)
  obtain n g where m: "m = (n, g)" by (cases m)
  from first_match_wf [OF Some [unfolded m]] have "wf_groups g" .
  from extract_total [OF this] obtain q where
    "extract_parameters_from_match
       (initial_parameters fn (get_file_type (basename fn)) (basename fn)) g n = Inr q"
    by blast
  with Some m show ?thesis
    by (simp add: parse_filename_def bind_e_def Let_def)
qed

section \<open>Properties of the filename parser\<close>

lemma initial_fields:
  "ExperimentalParameters.beam_energy (initial_parameters a b c) = None"
  "ExperimentalParameters.esa_voltage (initial_parameters a b c) = None"
  "inner_angle (initial_parameters a b c) = None"
  "is_dark (initial_parameters a b c) = False"
  "is_ramp (initial_parameters a b c) = False"
  "is_rotating (initial_parameters a b c) = False"
  by (simp_all add: initial_parameters_def)

lemma parse_filename_cases:
  assumes "parse_filename fn = Inr p"
  obtains (unmatched) "first_match patterns (clean_filename_for_parsing (basename fn)) = None"
      and "p = post_process_parameters
                 (initial_parameters fn (get_file_type (basename fn)) (basename fn))"
    | (matched) n g q where
        "first_match patterns (clean_filename_for_parsing (basename fn)) = Some (n, g)"
      and "extract_parameters_from_match
             (initial_parameters fn (get_file_type (basename fn)) (basename fn)) g n = Inr q"
      and "p = post_process_parameters q"
  using assms
  by (auto simp: parse_filename_def Let_def bind_e_def split: option.splits sum.splits)

text \<open>
  Claim C3. When the angle token of a parsed filename is \<open>A\<close>, the literal \<^verbatim>\<open>to\<close> and
  \<open>B\<close>, with \<open>A\<close> and \<open>B\<close> numbers as \<^verbatim>\<open>float\<close> reads them, the record is flagged as
  an angle range, its range is \<open>(min A B, max A B)\<close> and its angle value is the midpoint
  \<open>(A + B) / 2\<close>.
\<close>

theorem angle_range_record:
  assumes "parse_filename fn = Inr p" and "inner_angle p = Some (a @ ''to'' @ b)"
    and "py_float a = Inr A" and "py_float b = Inr B"
  shows "ExperimentalParameters.is_angle_range p \<and>
         inner_angle_range p = Some (min A B, max A B) \<and>
         inner_angle_value p = Some ((A + B) / 2)"
  using assms(1)
proof (cases rule: parse_filename_cases)
  case unmatched
  with assms(2) show ?thesis
    by (simp add: post_process_frame initial_fields)
next
  case (matched n g q)
  from matched(3) assms(2) have "inner_angle q = Some (a @ ''to'' @ b)"
    by (simp add: post_process_frame)
  from extract_inner_angle_field [OF matched(2) initial_fields(3) this]
    parse_angle_range [OF assms(3,4)]
  have "inner_angle_range q = Some (min A B, max A B) \<and>
        inner_angle_value q = Some ((min A B + max A B) / 2) \<and>
        ExperimentalParameters.is_angle_range q"
    by auto
  moreover have "min A B + max A B = A + B" by (simp add: min_def max_def)
  ultimately show ?thesis
    using matched(3) by (simp add: post_process_frame)
qed

lemma extract_truthy:
  assumes "extract_parameters_from_match p g n = Inr q"
    and "ExperimentalParameters.beam_energy p = None"
    and "ExperimentalParameters.esa_voltage p = None"
  shows "truthy (ExperimentalParameters.beam_energy q) = (ExperimentalParameters.beam_energy q \<noteq> None) \<and>
         truthy (ExperimentalParameters.esa_voltage q) = (ExperimentalParameters.esa_voltage q \<noteq> None)"
proof -
  from extract_steps [OF assms(1)] obtain p1 p2 p3 p4 p5 where
    s: "extract_beam_energy g p = Inr p1" "extract_esa_voltage g p1 = Inr p2"
       "extract_mcp_voltage g p2 = Inr p3" "extract_inner_angle g p3 = Inr p4"
       "extract_horizontal_value g p4 = Inr p5" and q: "q = set_flags n (extract_tokens g p5)"
    by blast
  from extract_beam_energy_cases [OF s(1)] assms(2,3)
  have 1: "truthy (ExperimentalParameters.beam_energy p1) = (ExperimentalParameters.beam_energy p1 \<noteq> None)"
      "ExperimentalParameters.esa_voltage p1 = None"
    by (auto simp: truthy_def dest: group_nonempty)
  from extract_esa_voltage_cases [OF s(2)] 1
  have 2: "truthy (ExperimentalParameters.beam_energy p2) = (ExperimentalParameters.beam_energy p2 \<noteq> None)"
      "truthy (ExperimentalParameters.esa_voltage p2) = (ExperimentalParameters.esa_voltage p2 \<noteq> None)"
    by (auto simp: truthy_def dest: group_nonempty)
  from extract_mcp_voltage_cases [OF s(3)]
  have 3: "ExperimentalParameters.beam_energy p3 = ExperimentalParameters.beam_energy p2"
      "ExperimentalParameters.esa_voltage p3 = ExperimentalParameters.esa_voltage p2"
    by auto
  from extract_inner_angle_cases [OF s(4)]
  have 4: "ExperimentalParameters.beam_energy p4 = ExperimentalParameters.beam_energy p3"
      "ExperimentalParameters.esa_voltage p4 = ExperimentalParameters.esa_voltage p3"
    by auto
  from extract_horizontal_value_cases [OF s(5)]
  have 5: "ExperimentalParameters.beam_energy p5 = ExperimentalParameters.beam_energy p4"
      "ExperimentalParameters.esa_voltage p5 = ExperimentalParameters.esa_voltage p4"
    by auto
  from q have "ExperimentalParameters.beam_energy q = ExperimentalParameters.beam_energy p2"
      "ExperimentalParameters.esa_voltage q = ExperimentalParameters.esa_voltage p2"
    by (simp_all add: set_flags_frame extract_tokens_frame 3 4 5)
  with 2 show ?thesis by simp
qed

lemma truthy_None: "truthy None = False"
  by (simp add: truthy_def)

lemma post_process_test_type:
  assumes "truthy (ExperimentalParameters.beam_energy q) = (ExperimentalParameters.beam_energy q \<noteq> None)"
    and "truthy (ExperimentalParameters.esa_voltage q) = (ExperimentalParameters.esa_voltage q \<noteq> None)"
  shows "test_type (post_process_parameters q) =
           Some (test_type_by_priority (is_dark q) (is_ramp q) (is_rotating q)
                   (ExperimentalParameters.beam_energy q \<noteq> None)
                   (ExperimentalParameters.esa_voltage q \<noteq> None))"
  by (simp add: post_process_parameters_def test_type_by_priority_def assms truthy_None)

text \<open>
  Claim C5. The \<^verbatim>\<open>test_type\<close> of every parsed record is the classification by
  priority of its flags and of the presence of its energy and voltage, and deriving it
  again from the record leaves the record as it is.
\<close>

theorem test_type_classification:
  assumes "parse_filename fn = Inr p"
  shows "test_type p =
           Some (test_type_by_priority (is_dark p) (is_ramp p) (is_rotating p)
                   (ExperimentalParameters.beam_energy p \<noteq> None)
                   (ExperimentalParameters.esa_voltage p \<noteq> None)) \<and>
         post_process_parameters p = p"
  using assms
proof (cases rule: parse_filename_cases)
  case unmatched
  have "test_type (post_process_parameters (initial_parameters fn (get_file_type (basename fn)) (basename fn))) =
      Some (test_type_by_priority False False False False False)"
    using post_process_test_type [of "initial_parameters fn (get_file_type (basename fn)) (basename fn)"]
    by (simp add: initial_fields truthy_def)
  with unmatched(2) show ?thesis
    by (simp add: post_process_frame initial_fields post_process_idem)
next
  case (matched n g q)
  from extract_truthy [OF matched(2) initial_fields(1,2)] post_process_test_type [of q]
  have "test_type (post_process_parameters q) =
           Some (test_type_by_priority (is_dark q) (is_ramp q) (is_rotating q)
                   (ExperimentalParameters.beam_energy q \<noteq> None)
                   (ExperimentalParameters.esa_voltage q \<noteq> None))"
    by blast
  with matched(3) show ?thesis
    by (simp add: post_process_frame post_process_idem)
qed

text \<open>
  Claim C2. \<^verbatim>\<open>parse_filename\<close> returns a record for every string, and when none of the
  grammars matches, every optional field of the record is absent, every flag is false
  and the \<^verbatim>\<open>test_type\<close> is \<^verbatim>\<open>unknown\<close>.
\<close>

theorem parse_filename_never_raises:
  "(\<exists>p. parse_filename fn = Inr p) \<and>
   (first_match patterns (clean_filename_for_parsing (basename fn)) = None \<longrightarrow>
      (\<exists>p. parse_filename fn = Inr p \<and> test_type p = Some ''unknown'' \<and>
         ExperimentalParameters.beam_energy p = None \<and> beam_energy_value p = None \<and>
         beam_energy_unit p = None \<and>
         ExperimentalParameters.esa_voltage p = None \<and> esa_voltage_value p = None \<and>
         mcp_voltage p = None \<and> mcp_voltage_value p = None \<and>
         inner_angle p = None \<and> inner_angle_value p = None \<and> inner_angle_range p = None \<and>
         horizontal_value p = None \<and> horizontal_value_num p = None \<and>
         focus_x p = None \<and> focus_y p = None \<and> offset_x p = None \<and> offset_y p = None \<and>
         wave_type p = None \<and> timestamp p = None \<and> datetime_obj p = None \<and>
         sequence_info p = None \<and>
         \<not> is_dark p \<and> \<not> is_ramp p \<and> \<not> is_rotating p \<and>
         \<not> ExperimentalParameters.is_angle_range p))"
proof (intro conjI impI)
  show "\<exists>p. parse_filename fn = Inr p" by (rule parse_filename_total)
next
  assume "first_match patterns (clean_filename_for_parsing (basename fn)) = None"
  then have "parse_filename fn =
      Inr (post_process_parameters
             (initial_parameters fn (get_file_type (basename fn)) (basename fn)))"
    by (simp add: parse_filename_def Let_def bind_e_def)
  then show "\<exists>p. parse_filename fn = Inr p \<and> test_type p = Some ''unknown'' \<and>
         ExperimentalParameters.beam_energy p = None \<and> beam_energy_value p = None \<and>
         beam_energy_unit p = None \<and>
         ExperimentalParameters.esa_voltage p = None \<and> esa_voltage_value p = None \<and>
         mcp_voltage p = None \<and> mcp_voltage_value p = None \<and>
         inner_angle p = None \<and> inner_angle_value p = None \<and> inner_angle_range p = None \<and>
         horizontal_value p = None \<and> horizontal_value_num p = None \<and>
         focus_x p = None \<and> focus_y p = None \<and> offset_x p = None \<and> offset_y p = None \<and>
         wave_type p = None \<and> timestamp p = None \<and> datetime_obj p = None \<and>
         sequence_info p = None \<and>
         \<not> is_dark p \<and> \<not> is_ramp p \<and> \<not> is_rotating p \<and>
         \<not> ExperimentalParameters.is_angle_range p"
    by (simp add: post_process_parameters_def initial_parameters_def truthy_def)
qed

lemma extract_beam_energy_field:
  assumes "extract_parameters_from_match p g n = Inr q"
    and "group g ''beam_energy'' = Some w" and "parse_energy w = Inr (v, u)"
  shows "ExperimentalParameters.beam_energy q = Some w \<and> beam_energy_value q = Some v \<and>
         beam_energy_unit q = Some u"
proof -
  from extract_steps [OF assms(1)] obtain p1 p2 p3 p4 p5 where
    s: "extract_beam_energy g p = Inr p1" "extract_esa_voltage g p1 = Inr p2"
       "extract_mcp_voltage g p2 = Inr p3" "extract_inner_angle g p3 = Inr p4"
       "extract_horizontal_value g p4 = Inr p5" and q: "q = set_flags n (extract_tokens g p5)"
    by blast
  from extract_beam_energy_cases [OF s(1)] assms(2,3)
  have 1: "ExperimentalParameters.beam_energy p1 = Some w \<and> beam_energy_value p1 = Some v \<and>
         beam_energy_unit p1 = Some u"
    by auto
  from extract_esa_voltage_cases [OF s(2)] 1
  have 2: "ExperimentalParameters.beam_energy p2 = Some w \<and> beam_energy_value p2 = Some v \<and>
         beam_energy_unit p2 = Some u"
    by auto
  from extract_mcp_voltage_cases [OF s(3)] 2
  have 3: "ExperimentalParameters.beam_energy p3 = Some w \<and> beam_energy_value p3 = Some v \<and>
         beam_energy_unit p3 = Some u"
    by auto
  from extract_inner_angle_cases [OF s(4)] 3
  have 4: "ExperimentalParameters.beam_energy p4 = Some w \<and> beam_energy_value p4 = Some v \<and>
         beam_energy_unit p4 = Some u"
    by auto
  from extract_horizontal_value_cases [OF s(5)] 4
  have 5: "ExperimentalParameters.beam_energy p5 = Some w \<and> beam_energy_value p5 = Some v \<and>
         beam_energy_unit p5 = Some u"
    by auto
  with q show ?thesis
    by (simp add: set_flags_frame extract_tokens_frame)
qed

lemma mand_seq_Cons: "mand (seq (r # rs)) = mand r \<union> mand (seq rs)"
  by (simp add: seq_def)

lemma beam_energy_mand_beam_to_end: "''beam_energy'' \<in> mand (seq (rs @ beam_to_end))"
proof (induction rs)
  case Nil
  show ?case by (simp add: beam_to_end_def seq_def)
next
  case (Cons r rs)
  then show ?case by (simp add: mand_seq_Cons)
qed

lemma beam_energy_mand_detailed: "''beam_energy'' \<in> mand detailed"
  unfolding detailed_def by (rule beam_energy_mand_beam_to_end)

text \<open>
  Claim C4. When the fully annotated grammar matches, the filename parses to a record
  whose energy token is a numeric token followed by \<^verbatim>\<open>eV\<close> or by \<^verbatim>\<open>keV\<close>, the only
  units that grammar admits: the energy value is the number the token spells in the
  first case, a thousand times that number in the second, and the unit recorded is
  \<^verbatim>\<open>eV\<close> in both. (Lemma \<open>parse_energy_units\<close> covers the other spellings of the units.)
\<close>

theorem detailed_beam_energy:
  assumes "search detailed (clean_filename_for_parsing (basename fn)) = Some g"
  shows "\<exists>p num v. parse_filename fn = Inr p \<and> number_tok num \<and> py_float num = Inr v \<and>
           beam_energy_unit p = Some ''eV'' \<and>
           (ExperimentalParameters.beam_energy p = Some (num @ ''eV'') \<and> beam_energy_value p = Some v \<or>
            ExperimentalParameters.beam_energy p = Some (num @ ''keV'') \<and>
              beam_energy_value p = Some (v * 1000))"
proof -
  let ?s = "clean_filename_for_parsing (basename fn)"
  let ?init = "initial_parameters fn (get_file_type (basename fn)) (basename fn)"
  from assms have fm: "first_match patterns ?s = Some (''detailed'', g)"
    by (simp add: patterns_def)
  from search_sound [OF assms] have caps: "caps_ok (grps detailed) g"
    and "g ''beam_energy'' \<noteq> None"
    using beam_energy_mand_detailed by blast+
  then obtain w where w: "g ''beam_energy'' = Some w" by blast
  from caps_lookup [OF caps w] have "w \<in> lang energy_re"
    by (simp add: grps_detailed)
  from lang_energy_re [OF this] obtain num where
    num: "number_tok num" and wn: "w = num @ ''eV'' \<or> w = num @ ''keV''" by blast
  from number_tok_float [OF num] obtain v where v: "py_float num = Inr v" by blast
  from wn w have gw: "group g ''beam_energy'' = Some w"
    by (auto simp: group_def)
  from extract_total [OF first_match_wf [OF fm]] obtain q where
    q: "extract_parameters_from_match ?init g ''detailed'' = Inr q" by blast
  with fm have p: "parse_filename fn = Inr (post_process_parameters q)"
    by (simp add: parse_filename_def Let_def bind_e_def)
  from wn show ?thesis
  proof
    assume e: "w = num @ ''eV''"
    have "parse_energy w = Inr (v, ''eV'')"
      unfolding e by (rule parse_energy_plain [OF num v]) (simp add: plain_units_def)
    from extract_beam_energy_field [OF q gw this] p num v e show ?thesis
      by (auto simp: post_process_frame)
  next
    assume e: "w = num @ ''keV''"
    have "parse_energy w = Inr (v * 1000, ''eV'')"
      unfolding e by (rule parse_energy_kilo [OF v]) (simp add: kilo_units_def)
    from extract_beam_energy_field [OF q gw this] p num v e show ?thesis
      by (auto simp: post_process_frame)
  qed
qed

text \<open>The example filename evaluated: the grammar that matches it, and the record.\<close>

lemma detailed_example_matches:
  "\<not> Option.is_none (search detailed (clean_filename_for_parsing (basename detailed_example)))"
  unfolding detailed_example_def by code_simp

lemma detailed_example_parsed:
  "map_sum id
     (\<lambda>p. (inner_angle p, ExperimentalParameters.beam_energy p, beam_energy_value p,
           beam_energy_unit p, ExperimentalParameters.esa_voltage p,
           is_dark p, is_ramp p, is_rotating p))
     (parse_filename detailed_example) =
   Inr (Some ''84to-118'', Some ''5keV'', Some 5000, Some ''eV'', Some ''-912'',
        False, False, False)"
  unfolding detailed_example_def by code_simp

lemma unmatched_example: "Option.is_none (first_match patterns (clean_filename_for_parsing (basename ''notes.txt'')))"
  by code_simp

lemma py_float_examples: "py_float ''84'' = Inr 84" "py_float ''-118'' = Inr (- 118)"
  by code_simp+

text \<open>Claim C3 at a filename of the fully annotated grammar with the angle token \<^verbatim>\<open>84to-118\<close>.\<close>

theorem angle_range_record_witness:
  "map_sum id
     (\<lambda>p. (inner_angle p, ExperimentalParameters.is_angle_range p, inner_angle_range p,
           inner_angle_value p))
     (parse_filename detailed_example) =
   Inr (Some ''84to-118'', True, Some (- 118, 84), Some (- 17))"
proof -
  from detailed_example_parsed obtain p where
    p: "parse_filename detailed_example = Inr p" and a: "inner_angle p = Some (''84'' @ ''to'' @ ''-118'')"
    by (cases "parse_filename detailed_example") auto
  from angle_range_record [OF p a py_float_examples] p a show ?thesis by simp
qed

text \<open>Claim C5 at the same filename: energy and voltage are present, no flag is set.\<close>

theorem test_type_classification_witness:
  "map_sum id test_type (parse_filename detailed_example) = Inr (Some ''voltage_sweep'')"
proof -
  from detailed_example_parsed obtain p where
    p: "parse_filename detailed_example = Inr p"
    and f: "ExperimentalParameters.beam_energy p = Some ''5keV''"
      "ExperimentalParameters.esa_voltage p = Some ''-912''"
      "\<not> is_dark p" "\<not> is_ramp p" "\<not> is_rotating p"
    by (cases "parse_filename detailed_example") auto
  from test_type_classification [OF p] p f show ?thesis
    by (simp add: test_type_by_priority_def)
qed

text \<open>Claim C4 at the same filename, whose energy token is \<^verbatim>\<open>5keV\<close>.\<close>

theorem detailed_beam_energy_witness:
  "map_sum id
     (\<lambda>p. (ExperimentalParameters.beam_energy p, beam_energy_value p, beam_energy_unit p))
     (parse_filename detailed_example) = Inr (Some ''5keV'', Some 5000, Some ''eV'')"
proof -
  from detailed_example_matches obtain g where
    g: "search detailed (clean_filename_for_parsing (basename detailed_example)) = Some g"
    by (auto simp: Option.is_none_def)
  from detailed_beam_energy [OF g] obtain p num v where
    p: "parse_filename detailed_example = Inr p" and u: "beam_energy_unit p = Some ''eV''"
    by blast
  with detailed_example_parsed show ?thesis by auto
qed

text \<open>Claim C2 at a filename no grammar matches.\<close>

theorem parse_filename_never_raises_witness:
  "map_sum id (\<lambda>p. (test_type p, ExperimentalParameters.beam_energy p, timestamp p))
     (parse_filename ''notes.txt'') = Inr (Some ''unknown'', None, None)"
proof -
  from unmatched_example
  have "first_match patterns (clean_filename_for_parsing (basename ''notes.txt'')) = None"
    by (simp add: Option.is_none_def)
  with parse_filename_never_raises [of "''notes.txt''"] show ?thesis by auto
qed

section \<open>Properties of the k-factor estimator\<close>

lemma build_measurements_filter:
  "build_measurements regions =
     map (\<lambda>r. \<lparr>impact_region = r,
            theoretical_deflection = (if 0 < beam_energy r then esa_voltage r / beam_energy r else 0),
            measured_deflection = (centroid_x r - 512) / 512,
            k_factor_estimate = None\<rparr>)
       (filter (\<lambda>r. esa_voltage r \<noteq> 0 \<and> beam_energy r \<noteq> 0) regions)"
  by (induction regions)
     (simp_all add: calculate_theoretical_deflection_def detector_center_x_def)

lemma collect_k_factors_admitted:
  "collect_k_factors (map (\<lambda>r. \<lparr>impact_region = r, theoretical_deflection = t r,
        measured_deflection = d r, k_factor_estimate = None\<rparr>)
       (filter (\<lambda>r. esa_voltage r \<noteq> 0 \<and> beam_energy r \<noteq> 0) rs)) =
     (map (\<lambda>r. \<lparr>impact_region = r, theoretical_deflection = t r,
        measured_deflection = d r, k_factor_estimate = Some (beam_energy r / \<bar>esa_voltage r\<bar>)\<rparr>)
        (filter (\<lambda>r. esa_voltage r \<noteq> 0 \<and> beam_energy r \<noteq> 0) rs),
      map (\<lambda>r. beam_energy r / \<bar>esa_voltage r\<bar>)
        (filter (\<lambda>r. esa_voltage r \<noteq> 0 \<and> beam_energy r \<noteq> 0) rs))"
  by (induction rs) (simp_all add: calculate_k_factor_def)

lemma estimate_k_factor_char:
  "estimate_k_factor regions =
     (let admitted = filter (\<lambda>r. esa_voltage r \<noteq> 0 \<and> beam_energy r \<noteq> 0) regions;
          ks = map (\<lambda>r. beam_energy r / \<bar>esa_voltage r\<bar>) admitted
      in if admitted = [] then Inl ''No valid measurements for k-factor estimation''
      else
        Inr \<lparr>k_factor_mean = mean ks, k_factor_std = std ks, k_factor_median = np_median ks,
             k_factor_range = (Min (set ks), Max (set ks)), num_measurements = length ks,
             measurements = map (\<lambda>r. \<lparr>impact_region = r,
                 theoretical_deflection = (if 0 < beam_energy r then esa_voltage r / beam_energy r else 0),
                 measured_deflection = (centroid_x r - 512) / 512,
                 k_factor_estimate = Some (beam_energy r / \<bar>esa_voltage r\<bar>)\<rparr>) admitted,
             k_factors = ks\<rparr>)"
  by (simp add: estimate_k_factor_def build_measurements_filter collect_k_factors_admitted Let_def)

lemma count_measurements:
  "length (filter (\<lambda>m. impact_region m = r) (map (\<lambda>r. \<lparr>impact_region = r,
        theoretical_deflection = t r, measured_deflection = d r, k_factor_estimate = k r\<rparr>)
        (filter P rs))) = (if P r then count_list rs r else 0)"
  by (induction rs) auto





text \<open>
  Claim C9. \<^verbatim>\<open>estimate_k_factor\<close> returns an error value exactly when no region has both a
  nonzero beam energy and a nonzero ESA voltage; the regions that miss either one can be
  dropped from the input without changing the result; and a statistics bundle is never
  computed from an empty list of k-factors (the mean divides by a positive count).
\<close>

theorem estimate_k_factor_error_iff:
  "((\<exists>msg. estimate_k_factor regions = Inl msg) \<longleftrightarrow>
      (\<forall>r \<in> set regions. beam_energy r = 0 \<or> esa_voltage r = 0)) \<and>
   estimate_k_factor regions =
     estimate_k_factor (filter (\<lambda>r. esa_voltage r \<noteq> 0 \<and> beam_energy r \<noteq> 0) regions) \<and>
   (\<forall>res. estimate_k_factor regions = Inr res \<longrightarrow>
      k_factors res \<noteq> [] \<and> num_measurements res = length (k_factors res) \<and>
      k_factor_mean res = sum_list (k_factors res) / real (length (k_factors res)))"
proof (intro conjI allI impI)
  show "(\<exists>msg. estimate_k_factor regions = Inl msg) \<longleftrightarrow>
      (\<forall>r \<in> set regions. beam_energy r = 0 \<or> esa_voltage r = 0)"
    by (auto simp: estimate_k_factor_char Let_def filter_empty_conv)
  show "estimate_k_factor regions =
     estimate_k_factor (filter (\<lambda>r. esa_voltage r \<noteq> 0 \<and> beam_energy r \<noteq> 0) regions)"
    by (simp add: estimate_k_factor_char Let_def)
next
  fix res
  assume "estimate_k_factor regions = Inr res"
  then show "k_factors res \<noteq> []"
    by (auto simp: estimate_k_factor_char Let_def split: if_splits)
next
  fix res
  assume "estimate_k_factor regions = Inr res"
  then show "num_measurements res = length (k_factors res)"
    by (auto simp: estimate_k_factor_char Let_def split: if_splits)
next
  fix res
  assume "estimate_k_factor regions = Inr res"
  then show "k_factor_mean res = sum_list (k_factors res) / real (length (k_factors res))"
    by (auto simp: estimate_k_factor_char Let_def mean_def split: if_splits)
qed

text \<open>Claim C9 at a region without voltage, alone and before an admitted region.\<close>

theorem estimate_k_factor_error_iff_witness:
  "estimate_k_factor [no_voltage_region] = Inl ''No valid measurements for k-factor estimation'' \<and>
   estimate_k_factor [no_voltage_region, positive_energy_region] =
     estimate_k_factor [positive_energy_region] \<and>
   map_sum id k_factors (estimate_k_factor [no_voltage_region, positive_energy_region]) =
     Inr [1000 / 181]"
  using estimate_k_factor_error_iff [of "[no_voltage_region]"]
    estimate_k_factor_error_iff [of "[no_voltage_region, positive_energy_region]"]
  by (auto simp: estimate_k_factor_char Let_def positive_energy_region_def no_voltage_region_def negative_energy_region_def)

section \<open>Properties of the impact region detector\<close>

lemma concat_normalized: "concat (normalized mx raw) = map (\<lambda>v. v / mx) (concat raw)"
  by (simp add: normalized_def map_concat)

lemma Max_normalized:
  assumes "xs \<noteq> []" and "0 < Max (set xs)"
  shows "Max (set (map (\<lambda>v. v / Max (set xs)) xs)) = (1::real)"
proof -
  have m: "mono (\<lambda>v::real. v / Max (set xs))"
    using assms(2) by (auto intro!: monoI divide_right_mono)
  have "Max ((\<lambda>v. v / Max (set xs)) ` set xs) = Max (set xs) / Max (set xs)"
    using mono_Max_commute [OF m, of "set xs"] assms(1) by simp
  with assms(2) show ?thesis by simp
qed

lemma np_max_normalized:
  assumes "np_max (concat raw) = Inr mx" and "0 < mx"
  shows "np_max (concat (normalized mx raw)) = Inr 1"
proof -
  from assms(1) have ne: "concat raw \<noteq> []" and mx: "mx = Max (set (concat raw))"
    by (auto simp: np_max_def split: if_splits)
  show ?thesis
    unfolding concat_normalized np_max_def
    using ne Max_normalized [of "concat raw"] assms(2) mx by simp
qed

lemma values_indexed: "map (\<lambda>(y, x, v). v) (indexed img) = concat img"
proof -
  have row: "map (\<lambda>(x, v). v) (enumerate n row) = row" for n and row :: "real list"
    using map_snd_enumerate [of n row] by (simp add: split_def)
  have "map (\<lambda>(y, x, v). v) (concat (map (\<lambda>(y, row). map (\<lambda>(x, v). (y, x, v)) (enumerate 0 row)) (enumerate n img)))
      = concat img" for n
  proof (induction img arbitrary: n)
    case Nil
    then show ?case by simp
  next
    case (Cons r img)
    have "map (\<lambda>(y, x, v). v) (map (\<lambda>(x, v). (n, x, v)) (enumerate 0 r)) = r"
      using row [of 0 r] by (simp add: o_def split_def)
    with Cons show ?case by simp
  qed
  then show ?thesis by (simp add: indexed_def)
qed

lemma length_indexed: "length (indexed img) = length (concat img)"
  using arg_cong [OF values_indexed [of img], of length] by simp

lemma length_significant:
  "length (significant t img) = length (filter (\<lambda>v. t < v) (concat img))"
proof -
  have "map (\<lambda>(y, x, v). v) (significant t img) = filter (\<lambda>v. t < v) (map (\<lambda>(y, x, v). v) (indexed img))"
    by (simp add: significant_def filter_map o_def split_def)
  then have "length (map (\<lambda>(y, x, v). v) (significant t img)) = length (filter (\<lambda>v. t < v) (concat img))"
    by (simp only: values_indexed)
  then show ?thesis by simp
qed

lemma analyze_region_fields:
  assumes "analyze_single_impact_region load_file_data data_file = Inr (Some region)"
  shows "\<exists>df fd raw mx. load_file_data data_file = (True, df) \<and> fits_data df = Some fd \<and>
           data fd = Some raw \<and> np_max (concat raw) = Inr mx \<and> 0 < mx \<and>
           min_region_size \<le> length (significant noise_threshold (normalized mx raw)) \<and>
           peak_intensity region = 1 \<and>
           region_area region = length (significant noise_threshold (normalized mx raw)) \<and>
           data_density region =
             real (length (significant noise_threshold (normalized mx raw))) / real (length (concat raw)) \<and>
           signal_to_noise region =
             signal_to_noise_ratio
               (map (\<lambda>(y, x, v). v) (significant noise_threshold (normalized mx raw)))
               (map (\<lambda>(y, x, v). v) (insignificant noise_threshold (normalized mx raw)))"
proof -
  obtain loaded df where l: "load_file_data data_file = (loaded, df)"
    by (cases "load_file_data data_file")
  from assms l have loaded: "loaded"
    by (auto simp: analyze_single_impact_region_def split: if_splits)
  from assms l loaded obtain fd where fd: "fits_data df = Some fd"
    by (auto simp: analyze_single_impact_region_def split: option.splits)
  from assms l loaded fd obtain raw where raw: "data fd = Some raw"
    by (auto simp: analyze_single_impact_region_def split: option.splits)
  from assms l loaded fd raw obtain mx where mx: "np_max (concat raw) = Inr mx"
    by (auto simp: analyze_single_impact_region_def bind_e_def split: sum.splits)
  from assms l loaded fd raw mx have pos: "0 < mx"
    by (auto simp: analyze_single_impact_region_def bind_e_def split: if_splits)
  note pk = np_max_normalized [OF mx pos]
  from assms show ?thesis
    unfolding analyze_single_impact_region_def l
    using loaded fd raw mx pos pk
    by (auto simp: bind_e_def Let_def split: if_splits sum.splits)
qed

text \<open>
  Claim C10. Every impact region the detector produces has peak intensity \<open>1\<close>: the peak
  is taken over the image already divided by its own maximum.
\<close>

theorem peak_intensity_is_one:
  assumes "analyze_single_impact_region load_file_data data_file = Inr (Some region)"
  shows "peak_intensity region = 1"
  using analyze_region_fields [OF assms] by blast


lemmas detector_defs = analyze_single_impact_region_def already_loaded_def loaded_file_def
      np_max_def np_min_def bind_e_def normalized_def noise_threshold_def significant_def insignificant_def indexed_def
      min_region_size_def Let_def np_average_def signal_to_noise_ratio_def np_std_def np_mean_def
      enumerate_eq_zip numeral_eq_Suc

text \<open>Claim C10 at an image with a spot of twelve pixels.\<close>

theorem peak_intensity_is_one_witness:
  "map_sum id (map_option peak_intensity)
     (analyze_single_impact_region already_loaded (loaded_file spot_image)) = Inr (Some 1)"
proof -
  have "\<exists>r. analyze_single_impact_region already_loaded (loaded_file spot_image) = Inr (Some r)"
    by (simp add: detector_defs spot_image_def)
  then obtain r where r: "analyze_single_impact_region already_loaded (loaded_file spot_image) = Inr (Some r)"
    by blast
  from peak_intensity_is_one [OF r] r show ?thesis by simp
qed

text \<open>
  Claim C7. For a file that loads with an image of at least one pixel, the detector
  returns "absent" (\<open>Inr None\<close>: no exception, no region) when every pixel is zero, and
  also when fewer than \<open>10\<close> pixels of the normalized image lie strictly above \<open>0.05\<close>, the
  noise ratio times the normalized peak \<open>1\<close>.
\<close>

theorem absent_without_signal:
  assumes "load_file_data data_file = (True, df)" and "fits_data df = Some fd"
    and "data fd = Some raw" and "concat raw \<noteq> []"
    and "(\<forall>v \<in> set (concat raw). v = 0) \<or>
         length (filter (\<lambda>v. 5 / 100 < v / Max (set (concat raw))) (concat raw)) < 10"
  shows "analyze_single_impact_region load_file_data data_file = Inr None"
proof -
  let ?mx = "Max (set (concat raw))"
  have mx: "np_max (concat raw) = Inr ?mx"
    using assms(4) by (simp add: np_max_def)
  show ?thesis
  proof (cases "0 < ?mx")
    case False
    then show ?thesis
      using assms(1-3) mx by (simp add: analyze_single_impact_region_def bind_e_def)
  next
    case True
    have "\<not> (\<forall>v \<in> set (concat raw). v = 0)"
    proof
      assume z: "\<forall>v \<in> set (concat raw). v = 0"
      have "?mx \<in> set (concat raw)"
        using assms(4) by (intro Max_in) simp_all
      with z have "?mx = 0" by blast
      with True show False by simp
    qed
    with assms(5) have few: "length (filter (\<lambda>v. 5 / 100 < v / ?mx) (concat raw)) < 10"
      by blast
    have "length (significant (1 * noise_threshold) (normalized ?mx raw)) =
        length (filter (\<lambda>v. 5 / 100 < v / ?mx) (concat raw))"
      by (simp add: length_significant concat_normalized noise_threshold_def filter_map o_def)
    with few have "length (significant (1 * noise_threshold) (normalized ?mx raw)) < min_region_size"
      by (simp add: min_region_size_def)
    then show ?thesis
      using assms(1-3) mx True np_max_normalized [OF mx True]
      by (simp add: analyze_single_impact_region_def bind_e_def Let_def)
  qed
qed

text \<open>Claim C7 at an image of zeros and at an image with a single bright pixel.\<close>

theorem absent_without_signal_witness:
  "analyze_single_impact_region already_loaded (loaded_file zero_image) = Inr None \<and>
   analyze_single_impact_region already_loaded (loaded_file faint_image) = Inr None"
proof -
  have z: "analyze_single_impact_region already_loaded (loaded_file zero_image) = Inr None"
    by (rule absent_without_signal [where df = "loaded_file zero_image" and raw = zero_image
          and fd = "\<lparr>data = Some zero_image, has_errors = False\<rparr>"])
       (simp_all add: already_loaded_def loaded_file_def zero_image_def)
  have f: "analyze_single_impact_region already_loaded (loaded_file faint_image) = Inr None"
    by (rule absent_without_signal [where df = "loaded_file faint_image" and raw = faint_image
          and fd = "\<lparr>data = Some faint_image, has_errors = False\<rparr>"])
       (simp_all add: already_loaded_def loaded_file_def faint_image_def)
  from z f show ?thesis by simp
qed

text \<open>
  What does hold of every region produced: the density lies in \<open>[0, 1]\<close>, and the
  signal-to-noise ratio is nonnegative whenever it is a number.
\<close>

lemma region_quality:
  assumes "analyze_single_impact_region load_file_data data_file = Inr (Some region)"
  shows "0 \<le> data_density region \<and> data_density region \<le> 1 \<and>
         (\<forall>s. signal_to_noise region = Some s \<longrightarrow> 0 \<le> s)"
proof -
  from analyze_region_fields [OF assms] obtain df fd raw mx where
    mx: "np_max (concat raw) = Inr mx" "0 < mx" and
    dd: "data_density region =
             real (length (significant noise_threshold (normalized mx raw))) / real (length (concat raw))" and
    sn: "signal_to_noise region =
             signal_to_noise_ratio
               (map (\<lambda>(y, x, v). v) (significant noise_threshold (normalized mx raw)))
               (map (\<lambda>(y, x, v). v) (insignificant noise_threshold (normalized mx raw)))"
    by blast
  have "length (significant noise_threshold (normalized mx raw)) \<le> length (concat raw)"
    by (simp add: length_significant concat_normalized)
  then have d: "0 \<le> data_density region \<and> data_density region \<le> 1"
    unfolding dd by (auto simp: divide_le_eq_1)
  have pos: "0 \<le> sum_list ws" if "\<forall>w \<in> set ws. 0 \<le> w" for ws :: "real list"
    using that by (induction ws) auto
  have "\<forall>w \<in> set (map (\<lambda>(y, x, v). v) (significant noise_threshold (normalized mx raw))). 0 \<le> w"
    by (auto simp: significant_def noise_threshold_def)
  then have m: "0 \<le> mean (map (\<lambda>(y, x, v). v) (significant noise_threshold (normalized mx raw)))"
    unfolding mean_def by (intro divide_nonneg_nonneg pos) simp_all
  have s: "0 \<le> std ns" for ns
    unfolding std_def mean_def
    by (intro real_sqrt_ge_zero divide_nonneg_nonneg pos) simp_all
  have "\<forall>s. signal_to_noise region = Some s \<longrightarrow> 0 \<le> s"
    unfolding sn signal_to_noise_ratio_def np_mean_def np_std_def
    using m s by (auto split: if_splits intro!: divide_nonneg_nonneg add_nonneg_nonneg)
  with d show ?thesis by blast
qed

text \<open>
  Claim C8 at an image where every pixel lies above the threshold: the sixteen pixels
  of a flat 4 x 4 image are all signal, the non-signal set is empty, \<^verbatim>\<open>np.std\<close> of it is
  NaN, and so is the signal-to-noise ratio of the region returned. NaN is not \<open>\<ge> 0\<close>.
\<close>

theorem signal_to_noise_nan_on_flat_image:
  "map_sum id (map_option (\<lambda>r. (region_area r, data_density r, signal_to_noise r)))
     (analyze_single_impact_region already_loaded (loaded_file flat_image)) = Inr (Some (16, 1, None))"
  by (simp add: detector_defs flat_image_def)

end
